theory Spec2Isabelle
  imports Complex_Main
begin

section \<open>Conventions of the embedding\<close>

text \<open>
  The two scripts \<^verbatim>\<open>change_camera_framecount.py\<close> and \<^verbatim>\<open>change_video_framecount.py\<close>
  are embedded function by function. Python's unbounded integers are \<^typ>\<open>int\<close>. Python
  and numpy floating-point numbers are read as real numbers: \<open>/\<close> is the exact quotient,
  \<open>math.floor\<close> the exact floor, \<open>math.sqrt\<close>, \<open>math.acos\<close>, \<open>math.cos\<close> and
  \<open>math.sin\<close> the exact functions. Rounding error is therefore outside the model, and every
  statement below about a numeric value is a statement about the exact value.

  An exception is a value: every function that can raise returns \<open>exn + 'a\<close>, with
  \<open>Inl\<close> for the exception raised. A numpy division by zero does not raise (it yields
  \<open>inf\<close> or \<open>nan\<close> and goes on); the reals have no such value, so the model stops
  there with \<open>NonFinite\<close>. A result \<open>Inr v\<close> thus says that the code returned \<open>v\<close>
  without raising and without dividing by zero.
\<close>

datatype exn =
    ValueError string
  | RuntimeError string
  | IndexError string
  | TypeError string
  | ZeroDivisionError string
  | NonFinite

definition bind_exn :: "exn + 'a \<Rightarrow> ('a \<Rightarrow> exn + 'b) \<Rightarrow> exn + 'b" where
  "bind_exn m f = (case m of Inl e \<Rightarrow> Inl e | Inr v \<Rightarrow> f v)"

text \<open>Python's \<open>xs[i]\<close> on a list (or on the first axis of a numpy array): a negative
  index counts from the end, an index out of range raises \<open>IndexError\<close>.\<close>

definition getitem :: "'a list \<Rightarrow> int \<Rightarrow> exn + 'a" where
  "getitem xs i =
     (let n = int (length xs); j = (if i < 0 then i + n else i)
      in if j < 0 \<or> n \<le> j then Inl (IndexError ''list index out of range'')
         else Inr (xs ! nat j))"

text \<open>\<open>math.sqrt\<close> raises on a negative argument; a division of two Python floats raises
  on a zero divisor; a division in which numpy takes part does not raise.\<close>

definition math_sqrt :: "real \<Rightarrow> exn + real" where
  "math_sqrt x = (if x < 0 then Inl (ValueError ''math domain error'') else Inr (sqrt x))"

definition float_div :: "real \<Rightarrow> real \<Rightarrow> exn + real" where
  "float_div a b =
     (if b = 0 then Inl (ZeroDivisionError ''float division by zero'') else Inr (a / b))"

definition np_div :: "real \<Rightarrow> real \<Rightarrow> exn + real" where
  "np_div a b = (if b = 0 then Inl NonFinite else Inr (a / b))"

text \<open>\<open>int(x)\<close> on a float truncates towards zero.\<close>

definition py_int :: "real \<Rightarrow> int" where
  "py_int x = (if 0 \<le> x then \<lfloor>x\<rfloor> else \<lceil>x\<rceil>)"

text \<open>The loop \<open>for k in range(M): out.append(body(k))\<close>, over the list of the indices
  still to visit; it stops at the first exception.\<close>

fun append_loop :: "(nat \<Rightarrow> exn + 'a) \<Rightarrow> nat list \<Rightarrow> 'a list \<Rightarrow> exn + 'a list" where
  "append_loop body [] out = Inr out"
| "append_loop body (k # ks) out =
     (case body k of Inl e \<Rightarrow> Inl e | Inr v \<Rightarrow> append_loop body ks (out @ [v]))"

text \<open>\<open>range(M)\<close> is empty for \<open>M \<le> 0\<close>.\<close>

definition py_range :: "int \<Rightarrow> nat list" where
  "py_range M = [0 ..< nat M]"

section \<open>\<^verbatim>\<open>change_video_framecount.py\<close>\<close>

text \<open>
  OpenCV is an external collaborator. What the script asks of it is collected in a record:
  the frame blend \<open>cv2.addWeighted\<close>, the first two components \<open>(h, w)\<close> of a frame's
  \<open>shape\<close>, what \<open>cv2.VideoCapture\<close> delivers for a path, and whether the
  \<open>cv2.VideoWriter\<close> for a path, a codec, a rate and a size is open. The type \<open>'f\<close> of
  frames is left open.
\<close>

record 'f capture =
  isOpened :: bool
  CAP_PROP_FPS :: real
  CAP_PROP_FRAME_COUNT :: real
  CAP_PROP_FRAME_WIDTH :: real
  CAP_PROP_FRAME_HEIGHT :: real
  decoded :: "'f list"

record 'f cv2 =
  addWeighted :: "'f \<Rightarrow> real \<Rightarrow> 'f \<Rightarrow> real \<Rightarrow> real \<Rightarrow> 'f"
  shape :: "'f \<Rightarrow> int \<times> int"
  VideoCapture :: "string \<Rightarrow> 'f capture"
  writer_isOpened :: "string \<Rightarrow> string \<Rightarrow> real \<Rightarrow> int \<times> int \<Rightarrow> bool"

text \<open>What was handed to the writer: the rate and the size it was opened with, and the
  frames written, in order.\<close>

record 'f written =
  fps :: real
  frame_size :: "int \<times> int"
  frames_out :: "'f list"

text \<open>Both loops map the target index \<open>k\<close> to the position \<open>p = (k * N) / M\<close> in
  the source, a true division of two integers.\<close>

definition source_position :: "int \<Rightarrow> int \<Rightarrow> nat \<Rightarrow> real" where
  "source_position N M k = real_of_int (int k * N) / real_of_int M"

text \<open>The body of the loop over \<open>k\<close> in \<open>resample_frames\<close>.\<close>

definition frame_at :: "'f cv2 \<Rightarrow> 'f list \<Rightarrow> int \<Rightarrow> int \<Rightarrow> nat \<Rightarrow> exn + 'f" where
  "frame_at cv frames N M k =
     (let p = source_position N M k;
          i = \<lfloor>p\<rfloor>;
          alpha = p - real_of_int i
      in if i < 0 then getitem frames 0
         else if i \<ge> N - 1 then getitem frames (- 1)
         else bind_exn (getitem frames i) (\<lambda>a.
              bind_exn (getitem frames (i + 1)) (\<lambda>b.
              Inr (addWeighted cv a (1 - alpha) b alpha 0))))"

text \<open>The values of the variables \<open>frame_count\<close> and \<open>fps_orig\<close> once the frames
  are read. Without a positive count in the metadata the count is the number of frames
  decoded, and a rate that is not positive is replaced by 30; with a positive count in the
  metadata both are taken as they are.\<close>

definition frame_count_of :: "'f capture \<Rightarrow> int" where
  "frame_count_of cap =
     (if py_int (CAP_PROP_FRAME_COUNT cap) \<le> 0 then int (length (decoded cap))
      else py_int (CAP_PROP_FRAME_COUNT cap))"

definition fps_orig_of :: "'f capture \<Rightarrow> real" where
  "fps_orig_of cap =
     (if py_int (CAP_PROP_FRAME_COUNT cap) \<le> 0 \<and> CAP_PROP_FPS cap \<le> 0 then 30
      else CAP_PROP_FPS cap)"

text \<open>\<open>resample_frames\<close>. Only the branch without a count in the metadata checks for an
  empty input. \<open>cv2.VideoWriter_fourcc(*codec)\<close> takes exactly four characters. The
  result of a run that returns is what the writer was given; when the loop raises, the
  result is the exception, and the frames written before it are not recorded.\<close>

definition resample_frames ::
  "'f cv2 \<Rightarrow> string \<Rightarrow> string \<Rightarrow> int \<Rightarrow> string \<Rightarrow> exn + 'f written" where
  "resample_frames cv input_path output_path target_frames codec =
     (let cap = VideoCapture cv input_path in
      if \<not> isOpened cap then Inl (RuntimeError (''Cannot open input video: '' @ input_path))
      else
        let width0 = py_int (CAP_PROP_FRAME_WIDTH cap);
            height0 = py_int (CAP_PROP_FRAME_HEIGHT cap);
            frames = decoded cap
        in
        if py_int (CAP_PROP_FRAME_COUNT cap) \<le> 0 \<and> length frames = 0
        then Inl (RuntimeError ''Input video contains no frames.'')
        else
          let frame_count = frame_count_of cap;
              fps_orig = fps_orig_of cap
          in
          bind_exn
            (if width0 = 0 \<or> height0 = 0
             then bind_exn (getitem frames 0) (\<lambda>f0. case shape cv f0 of (h, w) \<Rightarrow> Inr (w, h))
             else Inr (width0, height0))
            (\<lambda>(width, height).
               let N = frame_count; M = target_frames in
               if M \<le> 0 then Inl (ValueError ''target_frames must be > 0'')
               else
                 let duration = (if fps_orig > 0 then real_of_int N / fps_orig
                                 else real_of_int N);
                     fps_new = (if duration > 0 then real_of_int M / duration else fps_orig)
                 in
                 if length codec \<noteq> 4
                 then Inl (TypeError ''VideoWriter_fourcc() takes exactly 4 arguments'')
                 else if \<not> writer_isOpened cv output_path codec fps_new (width, height)
                 then Inl (RuntimeError (''Cannot open output for writing: '' @ output_path))
                 else
                   bind_exn (append_loop (frame_at cv frames N M) (py_range M) [])
                     (\<lambda>out. Inr \<lparr>fps = fps_new, frame_size = (width, height),
                                  frames_out = out\<rparr>)))"

section \<open>\<^verbatim>\<open>change_camera_framecount.py\<close>\<close>

text \<open>
  A pose arrives from JSON as a list of rows, each a list of numbers. The numpy arrays of
  fixed shape are tuples: a vector of three components, a 3x3 matrix as its three rows, a
  quaternion \<open>(w, x, y, z)\<close>.
\<close>

type_synonym mat4 = "real list list"
type_synonym vec3 = "real \<times> real \<times> real"
type_synonym mat3 = "vec3 \<times> vec3 \<times> vec3"
type_synonym quat = "real \<times> real \<times> real \<times> real"

subsection \<open>numpy arithmetic on vectors and quaternions\<close>

fun vadd :: "vec3 \<Rightarrow> vec3 \<Rightarrow> vec3" where
  "vadd (a0, a1, a2) (b0, b1, b2) = (a0 + b0, a1 + b1, a2 + b2)"

fun vscale :: "real \<Rightarrow> vec3 \<Rightarrow> vec3" where
  "vscale c (a0, a1, a2) = (c * a0, c * a1, c * a2)"

fun qadd :: "quat \<Rightarrow> quat \<Rightarrow> quat" where
  "qadd (a0, a1, a2, a3) (b0, b1, b2, b3) = (a0 + b0, a1 + b1, a2 + b2, a3 + b3)"

fun qsub :: "quat \<Rightarrow> quat \<Rightarrow> quat" where
  "qsub (a0, a1, a2, a3) (b0, b1, b2, b3) = (a0 - b0, a1 - b1, a2 - b2, a3 - b3)"

fun qscale :: "real \<Rightarrow> quat \<Rightarrow> quat" where
  "qscale c (a0, a1, a2, a3) = (c * a0, c * a1, c * a2, c * a3)"

fun qneg :: "quat \<Rightarrow> quat" where
  "qneg (a0, a1, a2, a3) = (- a0, - a1, - a2, - a3)"

fun qdot :: "quat \<Rightarrow> quat \<Rightarrow> real" where
  "qdot (a0, a1, a2, a3) (b0, b1, b2, b3) = a0 * b0 + a1 * b1 + a2 * b2 + a3 * b3"

text \<open>\<open>np.linalg.norm\<close> of a quaternion, and the division of a quaternion by a scalar.\<close>

fun qnorm :: "quat \<Rightarrow> real" where
  "qnorm (a0, a1, a2, a3) = sqrt (a0 * a0 + a1 * a1 + a2 * a2 + a3 * a3)"

fun qdiv :: "quat \<Rightarrow> real \<Rightarrow> exn + quat" where
  "qdiv (a0, a1, a2, a3) c =
     (if c = 0 then Inl NonFinite else Inr (a0 / c, a1 / c, a2 / c, a3 / c))"

subsection \<open>Poses, rotations and quaternions\<close>

definition entry :: "mat4 \<Rightarrow> int \<Rightarrow> int \<Rightarrow> exn + real" where
  "entry mat i j = bind_exn (getitem mat i) (\<lambda>row. getitem row j)"

definition mat4_to_rt :: "mat4 \<Rightarrow> exn + (mat3 \<times> vec3)" where
  "mat4_to_rt mat =
     bind_exn (entry mat 0 0) (\<lambda>r00. bind_exn (entry mat 0 1) (\<lambda>r01.
     bind_exn (entry mat 0 2) (\<lambda>r02.
     bind_exn (entry mat 1 0) (\<lambda>r10. bind_exn (entry mat 1 1) (\<lambda>r11.
     bind_exn (entry mat 1 2) (\<lambda>r12.
     bind_exn (entry mat 2 0) (\<lambda>r20. bind_exn (entry mat 2 1) (\<lambda>r21.
     bind_exn (entry mat 2 2) (\<lambda>r22.
     bind_exn (entry mat 0 3) (\<lambda>t0. bind_exn (entry mat 1 3) (\<lambda>t1.
     bind_exn (entry mat 2 3) (\<lambda>t2.
     Inr (((r00, r01, r02), (r10, r11, r12), (r20, r21, r22)), (t0, t1, t2))))))))))))))"

fun rt_to_mat4 :: "mat3 \<Rightarrow> vec3 \<Rightarrow> mat4" where
  "rt_to_mat4 ((r00, r01, r02), (r10, r11, r12), (r20, r21, r22)) (t0, t1, t2) =
     [[r00, r01, r02, t0], [r10, r11, r12, t1], [r20, r21, r22, t2], [0, 0, 0, 1]]"

fun rot_to_quat :: "mat3 \<Rightarrow> exn + quat" where
  "rot_to_quat ((m00, m01, m02), (m10, m11, m12), (m20, m21, m22)) =
     (let trace = m00 + m11 + m22 in
      bind_exn
        (if trace > 0 then
           bind_exn (math_sqrt (trace + 1)) (\<lambda>r.
           bind_exn (float_div 0.5 r) (\<lambda>s.
           bind_exn (float_div 0.25 s) (\<lambda>w.
           Inr (w, (m21 - m12) * s, (m02 - m20) * s, (m10 - m01) * s))))
         else if m00 > m11 \<and> m00 > m22 then
           bind_exn (math_sqrt (1 + m00 - m11 - m22)) (\<lambda>r.
           let s = 2 * r in
           bind_exn (np_div (m21 - m12) s) (\<lambda>w.
           bind_exn (np_div (m01 + m10) s) (\<lambda>y.
           bind_exn (np_div (m02 + m20) s) (\<lambda>z.
           Inr (w, 0.25 * s, y, z)))))
         else if m11 > m22 then
           bind_exn (math_sqrt (1 + m11 - m00 - m22)) (\<lambda>r.
           let s = 2 * r in
           bind_exn (np_div (m02 - m20) s) (\<lambda>w.
           bind_exn (np_div (m01 + m10) s) (\<lambda>x.
           bind_exn (np_div (m12 + m21) s) (\<lambda>z.
           Inr (w, x, 0.25 * s, z)))))
         else
           bind_exn (math_sqrt (1 + m22 - m00 - m11)) (\<lambda>r.
           let s = 2 * r in
           bind_exn (np_div (m10 - m01) s) (\<lambda>w.
           bind_exn (np_div (m02 + m20) s) (\<lambda>x.
           bind_exn (np_div (m12 + m21) s) (\<lambda>y.
           Inr (w, x, y, 0.25 * s))))))
        (\<lambda>q. qdiv q (qnorm q)))"

fun quat_to_rot :: "quat \<Rightarrow> mat3" where
  "quat_to_rot (w, x, y, z) =
     (let ww = w * w; xx = x * x; yy = y * y; zz = z * z;
          xy = x * y; xz = x * z; yz = y * z;
          wx = w * x; wy = w * y; wz = w * z
      in ((ww + xx - yy - zz, 2 * (xy - wz), 2 * (xz + wy)),
          (2 * (xy + wz), ww - xx + yy - zz, 2 * (yz - wx)),
          (2 * (xz - wy), 2 * (yz + wx), ww - xx - yy + zz)))"

definition quat_slerp :: "quat \<Rightarrow> quat \<Rightarrow> real \<Rightarrow> exn + quat" where
  "quat_slerp q0 q1 t =
     bind_exn (qdiv q0 (qnorm q0)) (\<lambda>q0'.
     bind_exn (qdiv q1 (qnorm q1)) (\<lambda>q1'.
     let dot = qdot q0' q1';
         q1'' = (if dot < 0 then qneg q1' else q1');
         dot' = (if dot < 0 then - dot else dot)
     in if dot' > 0.9995 then
          let result = qadd q0' (qscale t (qsub q1'' q0'))
          in qdiv result (qnorm result)
        else
          let theta_0 = arccos (max (min dot' 1) (- 1));
              theta = theta_0 * t;
              q2 = qsub q1'' (qscale dot' q0')
          in bind_exn (qdiv q2 (qnorm q2)) (\<lambda>q2'.
             Inr (qadd (qscale (cos theta) q0') (qscale (sin theta) q2')))))"

subsection \<open>\<open>resample_poses\<close>\<close>

text \<open>The first loop converts every pose and appends to the three lists \<open>Rs\<close>, \<open>ts\<close>
  and \<open>qs\<close>.\<close>

fun convert_loop ::
  "mat4 list \<Rightarrow> mat3 list \<Rightarrow> vec3 list \<Rightarrow> quat list
   \<Rightarrow> exn + (mat3 list \<times> vec3 list \<times> quat list)" where
  "convert_loop [] Rs ts qs = Inr (Rs, ts, qs)"
| "convert_loop (mat # rest) Rs ts qs =
     bind_exn (mat4_to_rt mat) (\<lambda>(R, t).
     bind_exn (rot_to_quat R) (\<lambda>q.
     convert_loop rest (Rs @ [R]) (ts @ [t]) (qs @ [q])))"

text \<open>The body of the second loop, for the target index \<open>k\<close>.\<close>

definition pose_at ::
  "mat4 list \<Rightarrow> vec3 list \<Rightarrow> quat list \<Rightarrow> int \<Rightarrow> int \<Rightarrow> nat \<Rightarrow> exn + mat4" where
  "pose_at poses ts qs N M k =
     (let p = source_position N M k;
          i = \<lfloor>p\<rfloor>;
          alpha = p - real_of_int i
      in if i < 0 then getitem poses 0
         else if i \<ge> N - 1 then getitem poses (- 1)
         else bind_exn (getitem qs i) (\<lambda>qa.
              bind_exn (getitem qs (i + 1)) (\<lambda>qb.
              bind_exn (quat_slerp qa qb alpha) (\<lambda>q.
              bind_exn (getitem ts i) (\<lambda>ta.
              bind_exn (getitem ts (i + 1)) (\<lambda>tb.
              let t = vadd (vscale (1 - alpha) ta) (vscale alpha tb);
                  R = quat_to_rot q
              in Inr (rt_to_mat4 R t)))))))"

definition resample_poses :: "mat4 list \<Rightarrow> int \<Rightarrow> exn + mat4 list" where
  "resample_poses poses M =
     (let N = int (length poses) in
      if N = 0 then Inl (ValueError ''No poses to resample'')
      else bind_exn (convert_loop poses [] [] []) (\<lambda>(Rs, ts, qs).
           append_loop (pose_at poses ts qs N M) (py_range M) []))"

section \<open>The two \<open>main\<close> functions\<close>

text \<open>\<open>str(n)\<close> for an integer, as the f-strings need it.\<close>

fun str_nat :: "nat \<Rightarrow> string" where
  "str_nat n =
     (if n < 10 then [''0123456789'' ! n]
      else str_nat (n div 10) @ [''0123456789'' ! (n mod 10)])"

declare str_nat.simps [simp del]

definition str_int :: "int \<Rightarrow> string" where
  "str_int i = (if i < 0 then ''-'' @ str_nat (nat (- i)) else str_nat (nat i))"

text \<open>\<open>str(e)\<close> for an exception, and the last line of the traceback of an exception
  that nothing catches.\<close>

fun exn_message :: "exn \<Rightarrow> string" where
  "exn_message (ValueError m) = m"
| "exn_message (RuntimeError m) = m"
| "exn_message (IndexError m) = m"
| "exn_message (TypeError m) = m"
| "exn_message (ZeroDivisionError m) = m"
| "exn_message NonFinite = ''nan''"

fun exn_name :: "exn \<Rightarrow> string" where
  "exn_name (ValueError m) = ''ValueError''"
| "exn_name (RuntimeError m) = ''RuntimeError''"
| "exn_name (IndexError m) = ''IndexError''"
| "exn_name (TypeError m) = ''TypeError''"
| "exn_name (ZeroDivisionError m) = ''ZeroDivisionError''"
| "exn_name NonFinite = ''NonFinite''"

text \<open>How a run of a script ends: \<open>sys.exit\<close> with a status after one message on
  standard error; an exception that leaves \<open>main\<close>; or the end of \<open>main\<close>, with what was
  written and the line printed on standard output.\<close>

datatype 'a outcome =
    SysExit int string
  | Uncaught exn
  | Completed 'a string

text \<open>The exit status of the process: an uncaught exception ends the interpreter with
  status 1, the end of \<open>main\<close> with status 0.\<close>

fun exit_status :: "'a outcome \<Rightarrow> int" where
  "exit_status (SysExit n msg) = n"
| "exit_status (Uncaught e) = 1"
| "exit_status (Completed a msg) = 0"

text \<open>What the caller reads on standard error: the one message the script prints
  before \<open>sys.exit\<close>, or the traceback the interpreter prints for an exception that
  nothing catches, of which the first and the last line are kept (the lines of the stack
  between them name files and line numbers).\<close>

fun stderr_lines :: "'a outcome \<Rightarrow> string list" where
  "stderr_lines (SysExit n msg) = [msg]"
| "stderr_lines (Uncaught e) =
     [''Traceback (most recent call last):'', exn_name e @ '': '' @ exn_message e]"
| "stderr_lines (Completed a msg) = []"

text \<open>A run that is reported once: the process ends with the given exit status and
  standard error holds the given message and nothing else.\<close>

definition reported_once :: "'a outcome \<Rightarrow> int \<Rightarrow> string \<Rightarrow> bool" where
  "reported_once r status msg \<longleftrightarrow> exit_status r = status \<and> stderr_lines r = [msg]"

text \<open>The pose document is a JSON object: a map from the names of its top-level fields
  to their values. A value is the list of matrices of the field \<open>poses\<close>, an integer, or
  anything else, which the script passes through. A field \<open>poses\<close> that holds something
  else than a list of matrices is outside what the embedding follows; it ends in a
  \<open>TypeError\<close> here. \<open>os.path.exists\<close> and \<open>json.load\<close> are parameters, and so is
  the command line after \<open>argparse\<close>.\<close>

datatype 'j jvalue = JPoses "mat4 list" | JInt int | JOther 'j

type_synonym 'j document = "string \<Rightarrow> 'j jvalue option"

definition main_poses ::
  "(string \<Rightarrow> bool) \<Rightarrow> (string \<Rightarrow> 'j document) \<Rightarrow> string \<Rightarrow> string \<Rightarrow> int
   \<Rightarrow> (string \<times> 'j document) outcome" where
  "main_poses path_exists json_load input output frames =
     (if \<not> path_exists input then SysExit 2 (''Input not found: '' @ input)
      else
        let data = json_load input in
        case data ''poses'' of
          None \<Rightarrow> SysExit 3 ''Input JSON does not contain 'poses' key''
        | Some poses_value \<Rightarrow>
            let M = frames in
            if M \<le> 0 then SysExit 4 ''Target frames must be > 0''
            else
              (case poses_value of
                 JPoses poses \<Rightarrow>
                   (case resample_poses poses M of
                      Inl e \<Rightarrow> Uncaught e
                    | Inr out_poses \<Rightarrow>
                        let data_out = data
                              (''poses'' \<mapsto> JPoses out_poses,
                               ''original_num_poses'' \<mapsto> JInt (int (length poses)),
                               ''target_num_poses'' \<mapsto> JInt M)
                        in Completed (output, data_out)
                             (''Wrote '' @ str_int (int (length out_poses)) @ '' poses to ''
                                @ output))
               | JInt n \<Rightarrow> Uncaught (TypeError ''object of type 'int' has no len()'')
               | JOther v \<Rightarrow> Uncaught (TypeError ''poses is not a list of matrices'')))"

definition main_video ::
  "'f cv2 \<Rightarrow> (string \<Rightarrow> bool) \<Rightarrow> string \<Rightarrow> string \<Rightarrow> int \<Rightarrow> string
   \<Rightarrow> (string \<times> 'f written) outcome" where
  "main_video cv path_exists input output frames codec =
     (if \<not> path_exists input then SysExit 2 (''Input file not found: '' @ input)
      else
        case resample_frames cv input output frames codec of
          Inl e \<Rightarrow> SysExit 1 (''Error: '' @ exn_message e)
        | Inr w \<Rightarrow>
            Completed (output, w)
              (''Wrote '' @ str_int frames @ '' frames to '' @ output))"

text \<open>The capture has passed every check that \<open>resample_frames\<close> makes before it
  looks at the target count: it is open, it is not the empty input of the branch without
  a count in the metadata, and the frame size is known, from the metadata or from the
  first frame.\<close>

definition frames_loaded :: "'f capture \<Rightarrow> bool" where
  "frames_loaded cap \<longleftrightarrow>
     isOpened cap
     \<and> \<not> (py_int (CAP_PROP_FRAME_COUNT cap) \<le> 0 \<and> decoded cap = [])
     \<and> (decoded cap \<noteq> []
          \<or> (py_int (CAP_PROP_FRAME_WIDTH cap) \<noteq> 0 \<and> py_int (CAP_PROP_FRAME_HEIGHT cap) \<noteq> 0))"

section \<open>Rotation matrices\<close>

text \<open>A rotation is a 3x3 matrix with orthonormal rows and determinant 1, as the data
  model of the specification asks of the rotation part of a pose.\<close>

fun mtranspose :: "mat3 \<Rightarrow> mat3" where
  "mtranspose ((a00, a01, a02), (a10, a11, a12), (a20, a21, a22)) =
     ((a00, a10, a20), (a01, a11, a21), (a02, a12, a22))"

fun vdot :: "vec3 \<Rightarrow> vec3 \<Rightarrow> real" where
  "vdot (a0, a1, a2) (b0, b1, b2) = a0 * b0 + a1 * b1 + a2 * b2"

fun mmul :: "mat3 \<Rightarrow> mat3 \<Rightarrow> mat3" where
  "mmul (r0, r1, r2) B =
     (case mtranspose B of (c0, c1, c2) \<Rightarrow>
        ((vdot r0 c0, vdot r0 c1, vdot r0 c2),
         (vdot r1 c0, vdot r1 c1, vdot r1 c2),
         (vdot r2 c0, vdot r2 c1, vdot r2 c2)))"

fun det3 :: "mat3 \<Rightarrow> real" where
  "det3 ((a00, a01, a02), (a10, a11, a12), (a20, a21, a22)) =
     a00 * (a11 * a22 - a12 * a21) - a01 * (a10 * a22 - a12 * a20)
     + a02 * (a10 * a21 - a11 * a20)"

definition ident3 :: mat3 where
  "ident3 = ((1, 0, 0), (0, 1, 0), (0, 0, 1))"

definition is_rotation :: "mat3 \<Rightarrow> bool" where
  "is_rotation R \<longleftrightarrow> mmul R (mtranspose R) = ident3 \<and> det3 R = 1"

text \<open>The quaternion that \<open>rot_to_quat\<close> computes before it normalises, written without
  the checks of \<open>math.sqrt\<close> and of the divisions.\<close>

fun pivot_quat :: "mat3 \<Rightarrow> quat" where
  "pivot_quat ((m00, m01, m02), (m10, m11, m12), (m20, m21, m22)) =
     (let trace = m00 + m11 + m22 in
      if trace > 0 then
        (let s = 0.5 / sqrt (trace + 1)
         in (0.25 / s, (m21 - m12) * s, (m02 - m20) * s, (m10 - m01) * s))
      else if m00 > m11 \<and> m00 > m22 then
        (let s = 2 * sqrt (1 + m00 - m11 - m22)
         in ((m21 - m12) / s, 0.25 * s, (m01 + m10) / s, (m02 + m20) / s))
      else if m11 > m22 then
        (let s = 2 * sqrt (1 + m11 - m00 - m22)
         in ((m02 - m20) / s, (m01 + m10) / s, 0.25 * s, (m12 + m21) / s))
      else
        (let s = 2 * sqrt (1 + m22 - m00 - m11)
         in ((m10 - m01) / s, (m02 + m20) / s, (m12 + m21) / s, 0.25 * s)))"

section \<open>Well-formed poses and the interpolation of two poses\<close>

text \<open>\<open>mat4_to_rt\<close> reads the rows 0 to 2 and the columns 0 to 3 of a pose. A pose with
  these entries is shaped; the rotation part and the translation part of a shaped pose are
  what \<open>mat4_to_rt\<close> returns.\<close>

definition shaped :: "mat4 \<Rightarrow> bool" where
  "shaped mat \<longleftrightarrow>
     3 \<le> length mat \<and> 4 \<le> length (mat ! 0) \<and> 4 \<le> length (mat ! 1) \<and> 4 \<le> length (mat ! 2)"

definition rot_part :: "mat4 \<Rightarrow> mat3" where
  "rot_part mat =
     ((mat ! 0 ! 0, mat ! 0 ! 1, mat ! 0 ! 2),
      (mat ! 1 ! 0, mat ! 1 ! 1, mat ! 1 ! 2),
      (mat ! 2 ! 0, mat ! 2 ! 1, mat ! 2 ! 2))"

definition trans_part :: "mat4 \<Rightarrow> vec3" where
  "trans_part mat = (mat ! 0 ! 3, mat ! 1 ! 3, mat ! 2 ! 3)"

text \<open>The quaternion that \<open>rot_to_quat\<close> returns, written without the checks.\<close>

definition unit_quat :: "mat3 \<Rightarrow> quat" where
  "unit_quat R = qscale (1 / qnorm (pivot_quat R)) (pivot_quat R)"

text \<open>A pose of the data model of the specification: a 4x4 matrix whose upper left 3x3
  block is a rotation and whose last row is \<open>[0, 0, 0, 1]\<close>.\<close>

definition is_pose :: "mat4 \<Rightarrow> bool" where
  "is_pose mat \<longleftrightarrow>
     (case mat4_to_rt mat of
        Inl e \<Rightarrow> False
      | Inr (R, t) \<Rightarrow> is_rotation R \<and> mat = rt_to_mat4 R t)"

text \<open>The interpolation of two neighbouring poses in the words of the specification:
  decompose both poses into rotation and translation, convert both rotations to
  quaternions, slerp them with the weight, convert the result back to a rotation matrix,
  blend the two translations linearly, and assemble the pose. The loop of
  \<open>resample_poses\<close> does this on the lists it has filled beforehand; \<open>pose_at_interpolate\<close>
  below relates the two.\<close>

definition interpolate_pose :: "mat4 \<Rightarrow> mat4 \<Rightarrow> real \<Rightarrow> exn + mat4" where
  "interpolate_pose a b alpha =
     bind_exn (mat4_to_rt a) (\<lambda>(Ra, ta).
     bind_exn (mat4_to_rt b) (\<lambda>(Rb, tb).
     bind_exn (rot_to_quat Ra) (\<lambda>qa.
     bind_exn (rot_to_quat Rb) (\<lambda>qb.
     bind_exn (quat_slerp qa qb alpha) (\<lambda>q.
     Inr (rt_to_mat4 (quat_to_rot q)
            (vadd (vscale (1 - alpha) ta) (vscale alpha tb))))))))"

section \<open>Concrete inputs\<close>

text \<open>A source of ten one-pixel frames at rate 30, blended linearly; every writer opens.\<close>

definition ten_frames :: "real cv2" where
  "ten_frames =
     \<lparr>addWeighted = (\<lambda>a wa b wb g. a * wa + b * wb + g),
      shape = (\<lambda>f. (1, 1)),
      VideoCapture = (\<lambda>path.
        \<lparr>isOpened = True, CAP_PROP_FPS = 30, CAP_PROP_FRAME_COUNT = 10,
         CAP_PROP_FRAME_WIDTH = 1, CAP_PROP_FRAME_HEIGHT = 1,
         decoded = [0, 10, 20, 30, 40, 50, 60, 70, 80, 90]\<rparr>),
      writer_isOpened = (\<lambda>path codec rate size. True)\<rparr>"

text \<open>The two poses of the scenario of the specification: the identity at the origin, and
  a quarter turn about the vertical axis at \<open>(1, 0, 0)\<close>.\<close>

definition two_poses :: "mat4 list" where
  "two_poses =
     [[[1, 0, 0, 0], [0, 1, 0, 0], [0, 0, 1, 0], [0, 0, 0, 1]],
      [[0, 0, 1, 1], [0, 1, 0, 0], [- 1, 0, 0, 0], [0, 0, 0, 1]]]"


text \<open>The ten frames behind a capture that does not open, and behind a writer that does
  not open; a pose document with one more field.\<close>

definition no_decoder :: "real cv2" where
  "no_decoder =
     ten_frames\<lparr>VideoCapture := (\<lambda>path. (VideoCapture ten_frames path)\<lparr>isOpened := False\<rparr>)\<rparr>"

definition no_encoder :: "real cv2" where
  "no_encoder = ten_frames\<lparr>writer_isOpened := (\<lambda>path codec rate sz. False)\<rparr>"

definition cameras :: "nat document" where
  "cameras = Map.empty(''poses'' \<mapsto> JPoses two_poses, ''fps'' \<mapsto> JOther 24)"

text \<open>A capture whose metadata count is 10 while three frames are decoded, and a capture
  with the same metadata, no width and nothing decoded.\<close>

definition short_capture :: "real cv2" where
  "short_capture =
     ten_frames\<lparr>VideoCapture := (\<lambda>path. (VideoCapture ten_frames path)\<lparr>decoded := [0, 10, 20]\<rparr>)\<rparr>"

definition empty_capture :: "real cv2" where
  "empty_capture =
     ten_frames\<lparr>VideoCapture := (\<lambda>path. (VideoCapture ten_frames path)
        \<lparr>CAP_PROP_FRAME_WIDTH := 0, decoded := []\<rparr>)\<rparr>"

text \<open>A capture without a frame count in the metadata that delivers no frame; a pose
  document without the field \<open>poses\<close>, and one whose field \<open>poses\<close> is the empty list.\<close>

definition no_frames :: "real cv2" where
  "no_frames =
     ten_frames\<lparr>VideoCapture := (\<lambda>path. (VideoCapture ten_frames path)
        \<lparr>CAP_PROP_FRAME_COUNT := 0, decoded := []\<rparr>)\<rparr>"

definition no_poses_field :: "nat document" where
  "no_poses_field = Map.empty(''fps'' \<mapsto> JOther 24)"

definition no_poses :: "nat document" where
  "no_poses = Map.empty(''poses'' \<mapsto> JPoses [], ''fps'' \<mapsto> JOther 24)"


section \<open>Basic facts\<close>

lemma bind_exn_Inr [simp]: "bind_exn (Inr v) f = f v"
  by (simp add: bind_exn_def)

lemma bind_exn_Inl [simp]: "bind_exn (Inl e) f = Inl e"
  by (simp add: bind_exn_def)


lemma py_int_of_int [simp]: "py_int (real_of_int n) = n"
  by (simp add: py_int_def)

lemma py_int_numeral [simp]: "py_int (numeral n) = numeral n"
  by (simp add: py_int_def)

lemma py_int_0 [simp]: "py_int 0 = 0"
  by (simp add: py_int_def)

lemma py_int_1 [simp]: "py_int 1 = 1"
  by (simp add: py_int_def)

section \<open>From a rotation matrix to a quaternion and back\<close>

text \<open>For a rotation matrix, each entry equals its cofactor and the columns are
  orthonormal too. The symmetric 4x4 matrix of the four pivots and the six sums and
  differences of off-diagonal entries has rank one: these are its vanishing minors.\<close>

lemma rotation_minors:
  assumes rot: "is_rotation ((m00, m01, m02), (m10, m11, m12), (m20, m21, m22))"
  shows
    minor_w_xx: "(m21 - m12) * (m21 - m12) = (1 + m00 + m11 + m22) * (1 + m00 - m11 - m22)" and
    minor_w_xy: "(m21 - m12) * (m02 - m20) = (1 + m00 + m11 + m22) * (m01 + m10)" and
    minor_w_xz: "(m21 - m12) * (m10 - m01) = (1 + m00 + m11 + m22) * (m02 + m20)" and
    minor_w_yy: "(m02 - m20) * (m02 - m20) = (1 + m00 + m11 + m22) * (1 + m11 - m00 - m22)" and
    minor_w_yz: "(m02 - m20) * (m10 - m01) = (1 + m00 + m11 + m22) * (m12 + m21)" and
    minor_w_zz: "(m10 - m01) * (m10 - m01) = (1 + m00 + m11 + m22) * (1 + m22 - m00 - m11)" and
    minor_x_ww: "(m21 - m12) * (m21 - m12) = (1 + m00 - m11 - m22) * (1 + m00 + m11 + m22)" and
    minor_x_wy: "(m21 - m12) * (m01 + m10) = (1 + m00 - m11 - m22) * (m02 - m20)" and
    minor_x_wz: "(m21 - m12) * (m02 + m20) = (1 + m00 - m11 - m22) * (m10 - m01)" and
    minor_x_yy: "(m01 + m10) * (m01 + m10) = (1 + m00 - m11 - m22) * (1 + m11 - m00 - m22)" and
    minor_x_yz: "(m01 + m10) * (m02 + m20) = (1 + m00 - m11 - m22) * (m12 + m21)" and
    minor_x_zz: "(m02 + m20) * (m02 + m20) = (1 + m00 - m11 - m22) * (1 + m22 - m00 - m11)" and
    minor_y_ww: "(m02 - m20) * (m02 - m20) = (1 + m11 - m00 - m22) * (1 + m00 + m11 + m22)" and
    minor_y_wx: "(m02 - m20) * (m01 + m10) = (1 + m11 - m00 - m22) * (m21 - m12)" and
    minor_y_wz: "(m02 - m20) * (m12 + m21) = (1 + m11 - m00 - m22) * (m10 - m01)" and
    minor_y_xx: "(m01 + m10) * (m01 + m10) = (1 + m11 - m00 - m22) * (1 + m00 - m11 - m22)" and
    minor_y_xz: "(m01 + m10) * (m12 + m21) = (1 + m11 - m00 - m22) * (m02 + m20)" and
    minor_y_zz: "(m12 + m21) * (m12 + m21) = (1 + m11 - m00 - m22) * (1 + m22 - m00 - m11)" and
    minor_z_ww: "(m10 - m01) * (m10 - m01) = (1 + m22 - m00 - m11) * (1 + m00 + m11 + m22)" and
    minor_z_wx: "(m10 - m01) * (m02 + m20) = (1 + m22 - m00 - m11) * (m21 - m12)" and
    minor_z_wy: "(m10 - m01) * (m12 + m21) = (1 + m22 - m00 - m11) * (m02 - m20)" and
    minor_z_xx: "(m02 + m20) * (m02 + m20) = (1 + m22 - m00 - m11) * (1 + m00 - m11 - m22)" and
    minor_z_xy: "(m02 + m20) * (m12 + m21) = (1 + m22 - m00 - m11) * (m01 + m10)" and
    minor_z_yy: "(m12 + m21) * (m12 + m21) = (1 + m22 - m00 - m11) * (1 + m11 - m00 - m22)"
proof -
  have r00: "m00 * m00 + m01 * m01 + m02 * m02 = 1"
    and r01: "m00 * m10 + m01 * m11 + m02 * m12 = 0"
    and r02: "m00 * m20 + m01 * m21 + m02 * m22 = 0"
    and r11: "m10 * m10 + m11 * m11 + m12 * m12 = 1"
    and r12: "m10 * m20 + m11 * m21 + m12 * m22 = 0"
    and r22: "m20 * m20 + m21 * m21 + m22 * m22 = 1"
    and det: "m00 * (m11 * m22 - m12 * m21) - m01 * (m10 * m22 - m12 * m20) + m02 * (m10 * m21 - m11 * m20) = 1"
    using rot by (simp_all add: is_rotation_def ident3_def)
  have "(m11 * m22 - m12 * m21) * (m00 * m00 + m01 * m01 + m02 * m02)
      + (m02 * m21 - m01 * m22) * (m00 * m10 + m01 * m11 + m02 * m12)
      + (m01 * m12 - m02 * m11) * (m00 * m20 + m01 * m21 + m02 * m22)
      = m00 * (m00 * (m11 * m22 - m12 * m21) - m01 * (m10 * m22 - m12 * m20) + m02 * (m10 * m21 - m11 * m20))"
    by (simp add: algebra_simps)
  then have k00: "m00 = m11 * m22 - m12 * m21"
    using r00 r01 r02 r11 r12 r22 det by simp
  have "(m12 * m20 - m10 * m22) * (m00 * m00 + m01 * m01 + m02 * m02)
      + (m00 * m22 - m02 * m20) * (m00 * m10 + m01 * m11 + m02 * m12)
      + (m02 * m10 - m00 * m12) * (m00 * m20 + m01 * m21 + m02 * m22)
      = m01 * (m00 * (m11 * m22 - m12 * m21) - m01 * (m10 * m22 - m12 * m20) + m02 * (m10 * m21 - m11 * m20))"
    by (simp add: algebra_simps)
  then have k01: "m01 = m12 * m20 - m10 * m22"
    using r00 r01 r02 r11 r12 r22 det by simp
  have "(m10 * m21 - m11 * m20) * (m00 * m00 + m01 * m01 + m02 * m02)
      + (m01 * m20 - m00 * m21) * (m00 * m10 + m01 * m11 + m02 * m12)
      + (m00 * m11 - m01 * m10) * (m00 * m20 + m01 * m21 + m02 * m22)
      = m02 * (m00 * (m11 * m22 - m12 * m21) - m01 * (m10 * m22 - m12 * m20) + m02 * (m10 * m21 - m11 * m20))"
    by (simp add: algebra_simps)
  then have k02: "m02 = m10 * m21 - m11 * m20"
    using r00 r01 r02 r11 r12 r22 det by simp
  have "(m11 * m22 - m12 * m21) * (m00 * m10 + m01 * m11 + m02 * m12)
      + (m02 * m21 - m01 * m22) * (m10 * m10 + m11 * m11 + m12 * m12)
      + (m01 * m12 - m02 * m11) * (m10 * m20 + m11 * m21 + m12 * m22)
      = m10 * (m00 * (m11 * m22 - m12 * m21) - m01 * (m10 * m22 - m12 * m20) + m02 * (m10 * m21 - m11 * m20))"
    by (simp add: algebra_simps)
  then have k10: "m10 = m02 * m21 - m01 * m22"
    using r00 r01 r02 r11 r12 r22 det by simp
  have "(m12 * m20 - m10 * m22) * (m00 * m10 + m01 * m11 + m02 * m12)
      + (m00 * m22 - m02 * m20) * (m10 * m10 + m11 * m11 + m12 * m12)
      + (m02 * m10 - m00 * m12) * (m10 * m20 + m11 * m21 + m12 * m22)
      = m11 * (m00 * (m11 * m22 - m12 * m21) - m01 * (m10 * m22 - m12 * m20) + m02 * (m10 * m21 - m11 * m20))"
    by (simp add: algebra_simps)
  then have k11: "m11 = m00 * m22 - m02 * m20"
    using r00 r01 r02 r11 r12 r22 det by simp
  have "(m10 * m21 - m11 * m20) * (m00 * m10 + m01 * m11 + m02 * m12)
      + (m01 * m20 - m00 * m21) * (m10 * m10 + m11 * m11 + m12 * m12)
      + (m00 * m11 - m01 * m10) * (m10 * m20 + m11 * m21 + m12 * m22)
      = m12 * (m00 * (m11 * m22 - m12 * m21) - m01 * (m10 * m22 - m12 * m20) + m02 * (m10 * m21 - m11 * m20))"
    by (simp add: algebra_simps)
  then have k12: "m12 = m01 * m20 - m00 * m21"
    using r00 r01 r02 r11 r12 r22 det by simp
  have "(m11 * m22 - m12 * m21) * (m00 * m20 + m01 * m21 + m02 * m22)
      + (m02 * m21 - m01 * m22) * (m10 * m20 + m11 * m21 + m12 * m22)
      + (m01 * m12 - m02 * m11) * (m20 * m20 + m21 * m21 + m22 * m22)
      = m20 * (m00 * (m11 * m22 - m12 * m21) - m01 * (m10 * m22 - m12 * m20) + m02 * (m10 * m21 - m11 * m20))"
    by (simp add: algebra_simps)
  then have k20: "m20 = m01 * m12 - m02 * m11"
    using r00 r01 r02 r11 r12 r22 det by simp
  have "(m12 * m20 - m10 * m22) * (m00 * m20 + m01 * m21 + m02 * m22)
      + (m00 * m22 - m02 * m20) * (m10 * m20 + m11 * m21 + m12 * m22)
      + (m02 * m10 - m00 * m12) * (m20 * m20 + m21 * m21 + m22 * m22)
      = m21 * (m00 * (m11 * m22 - m12 * m21) - m01 * (m10 * m22 - m12 * m20) + m02 * (m10 * m21 - m11 * m20))"
    by (simp add: algebra_simps)
  then have k21: "m21 = m02 * m10 - m00 * m12"
    using r00 r01 r02 r11 r12 r22 det by simp
  have "(m10 * m21 - m11 * m20) * (m00 * m20 + m01 * m21 + m02 * m22)
      + (m01 * m20 - m00 * m21) * (m10 * m20 + m11 * m21 + m12 * m22)
      + (m00 * m11 - m01 * m10) * (m20 * m20 + m21 * m21 + m22 * m22)
      = m22 * (m00 * (m11 * m22 - m12 * m21) - m01 * (m10 * m22 - m12 * m20) + m02 * (m10 * m21 - m11 * m20))"
    by (simp add: algebra_simps)
  then have k22: "m22 = m00 * m11 - m01 * m10"
    using r00 r01 r02 r11 r12 r22 det by simp
  have c00: "m00 * m00 + m10 * m10 + m20 * m20 = 1"
    using k00 k10 k20 det by algebra
  have c01: "m00 * m01 + m10 * m11 + m20 * m21 = 0"
    using k01 k11 k21 det by algebra
  have c02: "m00 * m02 + m10 * m12 + m20 * m22 = 0"
    using k02 k12 k22 det by algebra
  have c11: "m01 * m01 + m11 * m11 + m21 * m21 = 1"
    using k01 k11 k21 det by algebra
  have c12: "m01 * m02 + m11 * m12 + m21 * m22 = 0"
    using k02 k12 k22 det by algebra
  have c22: "m02 * m02 + m12 * m12 + m22 * m22 = 1"
    using k02 k12 k22 det by algebra
  show "(m21 - m12) * (m21 - m12) = (1 + m00 + m11 + m22) * (1 + m00 - m11 - m22)"
    using c00 k00 r11 r22 by algebra
  show "(m21 - m12) * (m02 - m20) = (1 + m00 + m11 + m22) * (m01 + m10)"
    using c01 k01 k10 r01 by algebra
  show "(m21 - m12) * (m10 - m01) = (1 + m00 + m11 + m22) * (m02 + m20)"
    using c02 k02 k20 r02 by algebra
  show "(m02 - m20) * (m02 - m20) = (1 + m00 + m11 + m22) * (1 + m11 - m00 - m22)"
    using c11 k11 r00 r22 by algebra
  show "(m02 - m20) * (m10 - m01) = (1 + m00 + m11 + m22) * (m12 + m21)"
    using c12 k12 k21 r12 by algebra
  show "(m10 - m01) * (m10 - m01) = (1 + m00 + m11 + m22) * (1 + m22 - m00 - m11)"
    using c00 c11 k22 r22 by algebra
  show "(m21 - m12) * (m21 - m12) = (1 + m00 - m11 - m22) * (1 + m00 + m11 + m22)"
    using c00 k00 r11 r22 by algebra
  show "(m21 - m12) * (m01 + m10) = (1 + m00 - m11 - m22) * (m02 - m20)"
    using c02 k02 k20 r02 by algebra
  show "(m21 - m12) * (m02 + m20) = (1 + m00 - m11 - m22) * (m10 - m01)"
    using c01 k01 k10 r01 by algebra
  show "(m01 + m10) * (m01 + m10) = (1 + m00 - m11 - m22) * (1 + m11 - m00 - m22)"
    using c00 c11 k22 r22 by algebra
  show "(m01 + m10) * (m02 + m20) = (1 + m00 - m11 - m22) * (m12 + m21)"
    using c12 k12 k21 r12 by algebra
  show "(m02 + m20) * (m02 + m20) = (1 + m00 - m11 - m22) * (1 + m22 - m00 - m11)"
    using c11 k11 r00 r22 by algebra
  show "(m02 - m20) * (m02 - m20) = (1 + m11 - m00 - m22) * (1 + m00 + m11 + m22)"
    using c11 k11 r00 r22 by algebra
  show "(m02 - m20) * (m01 + m10) = (1 + m11 - m00 - m22) * (m21 - m12)"
    using c12 k12 k21 r12 by algebra
  show "(m02 - m20) * (m12 + m21) = (1 + m11 - m00 - m22) * (m10 - m01)"
    using c01 k01 k10 r01 by algebra
  show "(m01 + m10) * (m01 + m10) = (1 + m11 - m00 - m22) * (1 + m00 - m11 - m22)"
    using c00 c11 k22 r22 by algebra
  show "(m01 + m10) * (m12 + m21) = (1 + m11 - m00 - m22) * (m02 + m20)"
    using c02 k02 k20 r02 by algebra
  show "(m12 + m21) * (m12 + m21) = (1 + m11 - m00 - m22) * (1 + m22 - m00 - m11)"
    using c00 k00 r11 r22 by algebra
  show "(m10 - m01) * (m10 - m01) = (1 + m22 - m00 - m11) * (1 + m00 + m11 + m22)"
    using c00 c11 k22 r22 by algebra
  show "(m10 - m01) * (m02 + m20) = (1 + m22 - m00 - m11) * (m21 - m12)"
    using c12 k12 k21 r12 by algebra
  show "(m10 - m01) * (m12 + m21) = (1 + m22 - m00 - m11) * (m02 - m20)"
    using c02 k02 k20 r02 by algebra
  show "(m02 + m20) * (m02 + m20) = (1 + m22 - m00 - m11) * (1 + m00 - m11 - m22)"
    using c11 k11 r00 r22 by algebra
  show "(m02 + m20) * (m12 + m21) = (1 + m22 - m00 - m11) * (m01 + m10)"
    using c01 k01 k10 r01 by algebra
  show "(m12 + m21) * (m12 + m21) = (1 + m22 - m00 - m11) * (1 + m11 - m00 - m22)"
    using c00 k00 r11 r22 by algebra
qed

lemma math_sqrt_nonneg: "0 \<le> x \<Longrightarrow> math_sqrt x = Inr (sqrt x)"
  by (simp add: math_sqrt_def)

lemma float_div_nonzero: "b \<noteq> 0 \<Longrightarrow> float_div a b = Inr (a / b)"
  by (simp add: float_div_def)

lemma np_div_nonzero: "b \<noteq> 0 \<Longrightarrow> np_div a b = Inr (a / b)"
  by (simp add: np_div_def)

lemma rot_to_quat_pivot:
  "rot_to_quat R = qdiv (pivot_quat R) (qnorm (pivot_quat R))"
proof -
  obtain m00 m01 m02 m10 m11 m12 m20 m21 m22
    where R: "R = ((m00, m01, m02), (m10, m11, m12), (m20, m21, m22))"
    by (metis prod_cases3)
  consider (w) "m00 + m11 + m22 > 0"
    | (x) "\<not> m00 + m11 + m22 > 0" "m00 > m11 \<and> m00 > m22"
    | (y) "\<not> m00 + m11 + m22 > 0" "\<not> (m00 > m11 \<and> m00 > m22)" "m11 > m22"
    | (z) "\<not> m00 + m11 + m22 > 0" "\<not> (m00 > m11 \<and> m00 > m22)" "\<not> m11 > m22"
    by blast
  then show ?thesis
  proof cases
    case w
    then have "0 < sqrt (m00 + m11 + m22 + 1)" by simp
    with w show ?thesis
      unfolding R
      by (simp add: math_sqrt_nonneg float_div_nonzero Let_def del: qdiv.simps qnorm.simps)
  next
    case x
    then have "0 < 1 + m00 - m11 - m22" by linarith
    then have "0 < sqrt (1 + m00 - m11 - m22)" by simp
    with x show ?thesis
      unfolding R
      by (simp add: math_sqrt_nonneg np_div_nonzero Let_def del: qdiv.simps qnorm.simps)
  next
    case y
    then have "0 < 1 + m11 - m00 - m22" by linarith
    then have "0 < sqrt (1 + m11 - m00 - m22)" by simp
    moreover have "(m11 < m00 \<and> m22 < m00) = False" using y by blast
    ultimately show ?thesis
      unfolding R using y(1,3)
      by (auto simp add: math_sqrt_nonneg np_div_nonzero Let_def simp del: qdiv.simps qnorm.simps)
  next
    case z
    then have "0 < 1 + m22 - m00 - m11" by linarith
    then have "0 < sqrt (1 + m22 - m00 - m11)" by simp
    moreover have "(m11 < m00 \<and> m22 < m00) = False" using z by blast
    ultimately show ?thesis
      unfolding R using z(1,3)
      by (auto simp add: math_sqrt_nonneg np_div_nonzero Let_def simp del: qdiv.simps qnorm.simps)
  qed
qed

lemma pivot_quat_cases:
  obtains (w) "1 \<le> 1 + m00 + m11 + m22"
      "pivot_quat ((m00, m01, m02), (m10, m11, m12), (m20, m21, m22)) =
         (sqrt (1 + m00 + m11 + m22) / 2,
          (m21 - m12) / (2 * sqrt (1 + m00 + m11 + m22)),
          (m02 - m20) / (2 * sqrt (1 + m00 + m11 + m22)),
          (m10 - m01) / (2 * sqrt (1 + m00 + m11 + m22)))"
  | (x) "1 \<le> 1 + m00 - m11 - m22"
      "pivot_quat ((m00, m01, m02), (m10, m11, m12), (m20, m21, m22)) =
         ((m21 - m12) / (2 * sqrt (1 + m00 - m11 - m22)),
          sqrt (1 + m00 - m11 - m22) / 2,
          (m01 + m10) / (2 * sqrt (1 + m00 - m11 - m22)),
          (m02 + m20) / (2 * sqrt (1 + m00 - m11 - m22)))"
  | (y) "1 \<le> 1 + m11 - m00 - m22"
      "pivot_quat ((m00, m01, m02), (m10, m11, m12), (m20, m21, m22)) =
         ((m02 - m20) / (2 * sqrt (1 + m11 - m00 - m22)),
          (m01 + m10) / (2 * sqrt (1 + m11 - m00 - m22)),
          sqrt (1 + m11 - m00 - m22) / 2,
          (m12 + m21) / (2 * sqrt (1 + m11 - m00 - m22)))"
  | (z) "1 \<le> 1 + m22 - m00 - m11"
      "pivot_quat ((m00, m01, m02), (m10, m11, m12), (m20, m21, m22)) =
         ((m10 - m01) / (2 * sqrt (1 + m22 - m00 - m11)),
          (m02 + m20) / (2 * sqrt (1 + m22 - m00 - m11)),
          (m12 + m21) / (2 * sqrt (1 + m22 - m00 - m11)),
          sqrt (1 + m22 - m00 - m11) / 2)"
proof -
  consider (cw) "m00 + m11 + m22 > 0"
    | (cx) "\<not> m00 + m11 + m22 > 0" "m00 > m11" "m00 > m22"
    | (cy) "\<not> m00 + m11 + m22 > 0" "\<not> m00 > m11 \<or> \<not> m00 > m22" "m11 > m22"
    | (cz) "\<not> m00 + m11 + m22 > 0" "\<not> m00 > m11 \<or> \<not> m00 > m22" "\<not> m11 > m22"
    by blast
  then show ?thesis
  proof cases
    case cw
    then have "0 < sqrt (1 + m00 + m11 + m22)" by simp
    with cw show ?thesis
      by (intro w) (simp_all add: Let_def add.commute)
  next
    case cx
    then have "1 \<le> 1 + m00 - m11 - m22" by linarith
    with cx show ?thesis
      by (intro x) (simp_all add: Let_def)
  next
    case cy
    then have "1 \<le> 1 + m11 - m00 - m22" by linarith
    with cy show ?thesis
      by (intro y) (auto simp add: Let_def)
  next
    case cz
    then have "1 \<le> 1 + m22 - m00 - m11" by linarith
    with cz show ?thesis
      by (intro z) (auto simp add: Let_def)
  qed
qed

lemma qnorm_pos:
  assumes "a0 \<noteq> 0 \<or> a1 \<noteq> 0 \<or> a2 \<noteq> 0 \<or> a3 \<noteq> 0"
  shows "0 < qnorm (a0, a1, a2, a3)"
proof -
  have sq: "0 \<le> a0 * a0" "0 \<le> a1 * a1" "0 \<le> a2 * a2" "0 \<le> a3 * a3"
    by simp_all
  have "0 < a0 * a0 \<or> 0 < a1 * a1 \<or> 0 < a2 * a2 \<or> 0 < a3 * a3"
    using assms not_real_square_gt_zero by blast
  then have "0 < a0 * a0 + a1 * a1 + a2 * a2 + a3 * a3"
    using sq by (elim disjE) linarith+
  then show ?thesis by simp
qed

lemma qnorm_pos_nonzero:
  assumes "q \<noteq> (0, 0, 0, 0)"
  shows "0 < qnorm q"
proof -
  obtain a0 a1 a2 a3 where q: "q = (a0, a1, a2, a3)"
    by (cases q)
  with assms have "a0 \<noteq> 0 \<or> a1 \<noteq> 0 \<or> a2 \<noteq> 0 \<or> a3 \<noteq> 0"
    by auto
  then show ?thesis
    unfolding q by (rule qnorm_pos)
qed

lemma pivot_quat_nonzero: "0 < qnorm (pivot_quat R)"
proof -
  obtain m00 m01 m02 m10 m11 m12 m20 m21 m22
    where R: "R = ((m00, m01, m02), (m10, m11, m12), (m20, m21, m22))"
    by (metis prod_cases3)
  have "0 < qnorm (pivot_quat ((m00, m01, m02), (m10, m11, m12), (m20, m21, m22)))"
  proof (cases rule: pivot_quat_cases[of m00 m11 m22 m01 m02 m10 m12 m20 m21])
    case w
    then have "sqrt (1 + m00 + m11 + m22) / 2 \<noteq> 0" by simp
    then show ?thesis unfolding w(2) by (intro qnorm_pos) blast
  next
    case x
    then have "sqrt (1 + m00 - m11 - m22) / 2 \<noteq> 0" by simp
    then show ?thesis unfolding x(2) by (intro qnorm_pos) blast
  next
    case y
    then have "sqrt (1 + m11 - m00 - m22) / 2 \<noteq> 0" by simp
    then show ?thesis unfolding y(2) by (intro qnorm_pos) blast
  next
    case z
    then have "sqrt (1 + m22 - m00 - m11) / 2 \<noteq> 0" by simp
    then show ?thesis unfolding z(2) by (intro qnorm_pos) blast
  qed
  then show ?thesis by (simp only: R)
qed

lemma quat_from_products:
  fixes w x y z :: real
  assumes "w * w = (1 + m00 + m11 + m22) / 4" "x * x = (1 + m00 - m11 - m22) / 4"
    "y * y = (1 + m11 - m00 - m22) / 4" "z * z = (1 + m22 - m00 - m11) / 4"
    "x * y = (m01 + m10) / 4" "x * z = (m02 + m20) / 4" "y * z = (m12 + m21) / 4"
    "w * x = (m21 - m12) / 4" "w * y = (m02 - m20) / 4" "w * z = (m10 - m01) / 4"
  shows "quat_to_rot (w, x, y, z) = ((m00, m01, m02), (m10, m11, m12), (m20, m21, m22))
    \<and> qnorm (w, x, y, z) = 1"
  by (simp add: Let_def assms) (simp add: add_divide_distrib diff_divide_distrib)

lemma pivot_pivot: "0 < P \<Longrightarrow> sqrt P / 2 * (sqrt P / 2) = P / 4"
  by simp

lemma pivot_other: "0 < P \<Longrightarrow> sqrt P / 2 * (u / (2 * sqrt P)) = u / 4"
  by simp

lemma other_pivot: "0 < P \<Longrightarrow> u / (2 * sqrt P) * (sqrt P / 2) = u / 4"
  by simp

lemma other_other:
  assumes "0 < P" "u * v = P * k"
  shows "u / (2 * sqrt P) * (v / (2 * sqrt P)) = k / 4"
proof -
  have "u / (2 * sqrt P) * (v / (2 * sqrt P)) = (u * v) / (4 * (sqrt P * sqrt P))"
    by simp
  also have "\<dots> = (P * k) / (4 * P)"
    using assms by simp
  also have "\<dots> = k / 4"
    using assms by simp
  finally show ?thesis .
qed

lemma pivot_quat_rotation:
  assumes rot: "is_rotation ((m00, m01, m02), (m10, m11, m12), (m20, m21, m22))"
  shows "quat_to_rot (pivot_quat ((m00, m01, m02), (m10, m11, m12), (m20, m21, m22)))
      = ((m00, m01, m02), (m10, m11, m12), (m20, m21, m22))
    \<and> qnorm (pivot_quat ((m00, m01, m02), (m10, m11, m12), (m20, m21, m22))) = 1"
proof -
  show ?thesis
  proof (cases rule: pivot_quat_cases[of m00 m11 m22 m01 m02 m10 m12 m20 m21])
    case w
    have pos: "0 < 1 + m00 + m11 + m22" using w(1) by linarith
    show ?thesis
      unfolding w(2)
    proof (rule quat_from_products)
      show "sqrt (1 + m00 + m11 + m22) / 2 * (sqrt (1 + m00 + m11 + m22) / 2) = (1 + m00 + m11 + m22) / 4"
        by (rule pivot_pivot[OF pos])
      show "(m21 - m12) / (2 * sqrt (1 + m00 + m11 + m22)) * ((m21 - m12) / (2 * sqrt (1 + m00 + m11 + m22))) = (1 + m00 - m11 - m22) / 4"
        by (rule other_other[OF pos minor_w_xx[OF rot]])
      show "(m02 - m20) / (2 * sqrt (1 + m00 + m11 + m22)) * ((m02 - m20) / (2 * sqrt (1 + m00 + m11 + m22))) = (1 + m11 - m00 - m22) / 4"
        by (rule other_other[OF pos minor_w_yy[OF rot]])
      show "(m10 - m01) / (2 * sqrt (1 + m00 + m11 + m22)) * ((m10 - m01) / (2 * sqrt (1 + m00 + m11 + m22))) = (1 + m22 - m00 - m11) / 4"
        by (rule other_other[OF pos minor_w_zz[OF rot]])
      show "(m21 - m12) / (2 * sqrt (1 + m00 + m11 + m22)) * ((m02 - m20) / (2 * sqrt (1 + m00 + m11 + m22))) = (m01 + m10) / 4"
        by (rule other_other[OF pos minor_w_xy[OF rot]])
      show "(m21 - m12) / (2 * sqrt (1 + m00 + m11 + m22)) * ((m10 - m01) / (2 * sqrt (1 + m00 + m11 + m22))) = (m02 + m20) / 4"
        by (rule other_other[OF pos minor_w_xz[OF rot]])
      show "(m02 - m20) / (2 * sqrt (1 + m00 + m11 + m22)) * ((m10 - m01) / (2 * sqrt (1 + m00 + m11 + m22))) = (m12 + m21) / 4"
        by (rule other_other[OF pos minor_w_yz[OF rot]])
      show "sqrt (1 + m00 + m11 + m22) / 2 * ((m21 - m12) / (2 * sqrt (1 + m00 + m11 + m22))) = (m21 - m12) / 4"
        by (rule pivot_other[OF pos])
      show "sqrt (1 + m00 + m11 + m22) / 2 * ((m02 - m20) / (2 * sqrt (1 + m00 + m11 + m22))) = (m02 - m20) / 4"
        by (rule pivot_other[OF pos])
      show "sqrt (1 + m00 + m11 + m22) / 2 * ((m10 - m01) / (2 * sqrt (1 + m00 + m11 + m22))) = (m10 - m01) / 4"
        by (rule pivot_other[OF pos])
    qed
  next
    case x
    have pos: "0 < 1 + m00 - m11 - m22" using x(1) by linarith
    show ?thesis
      unfolding x(2)
    proof (rule quat_from_products)
      show "(m21 - m12) / (2 * sqrt (1 + m00 - m11 - m22)) * ((m21 - m12) / (2 * sqrt (1 + m00 - m11 - m22))) = (1 + m00 + m11 + m22) / 4"
        by (rule other_other[OF pos minor_x_ww[OF rot]])
      show "sqrt (1 + m00 - m11 - m22) / 2 * (sqrt (1 + m00 - m11 - m22) / 2) = (1 + m00 - m11 - m22) / 4"
        by (rule pivot_pivot[OF pos])
      show "(m01 + m10) / (2 * sqrt (1 + m00 - m11 - m22)) * ((m01 + m10) / (2 * sqrt (1 + m00 - m11 - m22))) = (1 + m11 - m00 - m22) / 4"
        by (rule other_other[OF pos minor_x_yy[OF rot]])
      show "(m02 + m20) / (2 * sqrt (1 + m00 - m11 - m22)) * ((m02 + m20) / (2 * sqrt (1 + m00 - m11 - m22))) = (1 + m22 - m00 - m11) / 4"
        by (rule other_other[OF pos minor_x_zz[OF rot]])
      show "sqrt (1 + m00 - m11 - m22) / 2 * ((m01 + m10) / (2 * sqrt (1 + m00 - m11 - m22))) = (m01 + m10) / 4"
        by (rule pivot_other[OF pos])
      show "sqrt (1 + m00 - m11 - m22) / 2 * ((m02 + m20) / (2 * sqrt (1 + m00 - m11 - m22))) = (m02 + m20) / 4"
        by (rule pivot_other[OF pos])
      show "(m01 + m10) / (2 * sqrt (1 + m00 - m11 - m22)) * ((m02 + m20) / (2 * sqrt (1 + m00 - m11 - m22))) = (m12 + m21) / 4"
        by (rule other_other[OF pos minor_x_yz[OF rot]])
      show "(m21 - m12) / (2 * sqrt (1 + m00 - m11 - m22)) * (sqrt (1 + m00 - m11 - m22) / 2) = (m21 - m12) / 4"
        by (rule other_pivot[OF pos])
      show "(m21 - m12) / (2 * sqrt (1 + m00 - m11 - m22)) * ((m01 + m10) / (2 * sqrt (1 + m00 - m11 - m22))) = (m02 - m20) / 4"
        by (rule other_other[OF pos minor_x_wy[OF rot]])
      show "(m21 - m12) / (2 * sqrt (1 + m00 - m11 - m22)) * ((m02 + m20) / (2 * sqrt (1 + m00 - m11 - m22))) = (m10 - m01) / 4"
        by (rule other_other[OF pos minor_x_wz[OF rot]])
    qed
  next
    case y
    have pos: "0 < 1 + m11 - m00 - m22" using y(1) by linarith
    show ?thesis
      unfolding y(2)
    proof (rule quat_from_products)
      show "(m02 - m20) / (2 * sqrt (1 + m11 - m00 - m22)) * ((m02 - m20) / (2 * sqrt (1 + m11 - m00 - m22))) = (1 + m00 + m11 + m22) / 4"
        by (rule other_other[OF pos minor_y_ww[OF rot]])
      show "(m01 + m10) / (2 * sqrt (1 + m11 - m00 - m22)) * ((m01 + m10) / (2 * sqrt (1 + m11 - m00 - m22))) = (1 + m00 - m11 - m22) / 4"
        by (rule other_other[OF pos minor_y_xx[OF rot]])
      show "sqrt (1 + m11 - m00 - m22) / 2 * (sqrt (1 + m11 - m00 - m22) / 2) = (1 + m11 - m00 - m22) / 4"
        by (rule pivot_pivot[OF pos])
      show "(m12 + m21) / (2 * sqrt (1 + m11 - m00 - m22)) * ((m12 + m21) / (2 * sqrt (1 + m11 - m00 - m22))) = (1 + m22 - m00 - m11) / 4"
        by (rule other_other[OF pos minor_y_zz[OF rot]])
      show "(m01 + m10) / (2 * sqrt (1 + m11 - m00 - m22)) * (sqrt (1 + m11 - m00 - m22) / 2) = (m01 + m10) / 4"
        by (rule other_pivot[OF pos])
      show "(m01 + m10) / (2 * sqrt (1 + m11 - m00 - m22)) * ((m12 + m21) / (2 * sqrt (1 + m11 - m00 - m22))) = (m02 + m20) / 4"
        by (rule other_other[OF pos minor_y_xz[OF rot]])
      show "sqrt (1 + m11 - m00 - m22) / 2 * ((m12 + m21) / (2 * sqrt (1 + m11 - m00 - m22))) = (m12 + m21) / 4"
        by (rule pivot_other[OF pos])
      show "(m02 - m20) / (2 * sqrt (1 + m11 - m00 - m22)) * ((m01 + m10) / (2 * sqrt (1 + m11 - m00 - m22))) = (m21 - m12) / 4"
        by (rule other_other[OF pos minor_y_wx[OF rot]])
      show "(m02 - m20) / (2 * sqrt (1 + m11 - m00 - m22)) * (sqrt (1 + m11 - m00 - m22) / 2) = (m02 - m20) / 4"
        by (rule other_pivot[OF pos])
      show "(m02 - m20) / (2 * sqrt (1 + m11 - m00 - m22)) * ((m12 + m21) / (2 * sqrt (1 + m11 - m00 - m22))) = (m10 - m01) / 4"
        by (rule other_other[OF pos minor_y_wz[OF rot]])
    qed
  next
    case z
    have pos: "0 < 1 + m22 - m00 - m11" using z(1) by linarith
    show ?thesis
      unfolding z(2)
    proof (rule quat_from_products)
      show "(m10 - m01) / (2 * sqrt (1 + m22 - m00 - m11)) * ((m10 - m01) / (2 * sqrt (1 + m22 - m00 - m11))) = (1 + m00 + m11 + m22) / 4"
        by (rule other_other[OF pos minor_z_ww[OF rot]])
      show "(m02 + m20) / (2 * sqrt (1 + m22 - m00 - m11)) * ((m02 + m20) / (2 * sqrt (1 + m22 - m00 - m11))) = (1 + m00 - m11 - m22) / 4"
        by (rule other_other[OF pos minor_z_xx[OF rot]])
      show "(m12 + m21) / (2 * sqrt (1 + m22 - m00 - m11)) * ((m12 + m21) / (2 * sqrt (1 + m22 - m00 - m11))) = (1 + m11 - m00 - m22) / 4"
        by (rule other_other[OF pos minor_z_yy[OF rot]])
      show "sqrt (1 + m22 - m00 - m11) / 2 * (sqrt (1 + m22 - m00 - m11) / 2) = (1 + m22 - m00 - m11) / 4"
        by (rule pivot_pivot[OF pos])
      show "(m02 + m20) / (2 * sqrt (1 + m22 - m00 - m11)) * ((m12 + m21) / (2 * sqrt (1 + m22 - m00 - m11))) = (m01 + m10) / 4"
        by (rule other_other[OF pos minor_z_xy[OF rot]])
      show "(m02 + m20) / (2 * sqrt (1 + m22 - m00 - m11)) * (sqrt (1 + m22 - m00 - m11) / 2) = (m02 + m20) / 4"
        by (rule other_pivot[OF pos])
      show "(m12 + m21) / (2 * sqrt (1 + m22 - m00 - m11)) * (sqrt (1 + m22 - m00 - m11) / 2) = (m12 + m21) / 4"
        by (rule other_pivot[OF pos])
      show "(m10 - m01) / (2 * sqrt (1 + m22 - m00 - m11)) * ((m02 + m20) / (2 * sqrt (1 + m22 - m00 - m11))) = (m21 - m12) / 4"
        by (rule other_other[OF pos minor_z_wx[OF rot]])
      show "(m10 - m01) / (2 * sqrt (1 + m22 - m00 - m11)) * ((m12 + m21) / (2 * sqrt (1 + m22 - m00 - m11))) = (m02 - m20) / 4"
        by (rule other_other[OF pos minor_z_wy[OF rot]])
      show "(m10 - m01) / (2 * sqrt (1 + m22 - m00 - m11)) * (sqrt (1 + m22 - m00 - m11) / 2) = (m10 - m01) / 4"
        by (rule other_pivot[OF pos])
    qed
  qed
qed

section \<open>Quaternion arithmetic and \<open>quat_slerp\<close>\<close>

lemma qnorm_sqrt_qdot: "qnorm q = sqrt (qdot q q)"
  by (cases q) simp

lemma qdot_commute: "qdot a b = qdot b a"
  by (cases a, cases b) simp

lemma qdot_qadd_left: "qdot (qadd a b) c = qdot a c + qdot b c"
  by (cases a, cases b, cases c) (simp add: algebra_simps)

lemma qdot_qsub_left: "qdot (qsub a b) c = qdot a c - qdot b c"
  by (cases a, cases b, cases c) (simp add: algebra_simps)

lemma qdot_qscale_left: "qdot (qscale k a) c = k * qdot a c"
  by (cases a, cases c) (simp add: algebra_simps)

lemma qdot_qneg_left: "qdot (qneg a) c = - qdot a c"
  by (cases a, cases c) simp

lemma qdot_qadd_right: "qdot c (qadd a b) = qdot c a + qdot c b"
  by (simp add: qdot_commute[of c] qdot_qadd_left)

lemma qdot_qsub_right: "qdot c (qsub a b) = qdot c a - qdot c b"
  by (simp add: qdot_commute[of c] qdot_qsub_left)

lemma qdot_qscale_right: "qdot c (qscale k a) = k * qdot c a"
  by (simp add: qdot_commute[of c] qdot_qscale_left)

lemma qdot_qneg_right: "qdot c (qneg a) = - qdot c a"
  by (simp add: qdot_commute[of c] qdot_qneg_left)

lemmas qdot_linear = qdot_qadd_left qdot_qsub_left qdot_qscale_left qdot_qneg_left
  qdot_qadd_right qdot_qsub_right qdot_qscale_right qdot_qneg_right

lemma qdot_self_nonneg: "0 \<le> qdot q q"
  by (cases q) simp

lemma qnorm_eq_1_iff: "qnorm q = 1 \<longleftrightarrow> qdot q q = 1"
  by (simp add: qnorm_sqrt_qdot)

lemma qnorm_pos_iff: "0 < qnorm q \<longleftrightarrow> 0 < qdot q q"
  by (simp add: qnorm_sqrt_qdot)

lemma qdiv_nonzero: "c \<noteq> 0 \<Longrightarrow> qdiv q c = Inr (qscale (1 / c) q)"
  by (cases q) simp

lemma qdiv_unit: "qnorm q = 1 \<Longrightarrow> qdiv q (qnorm q) = Inr q"
  by (cases q) (simp del: qnorm.simps)

lemma qdiv_1: "qdiv q 1 = Inr q"
  by (cases q) simp

lemma qnorm_normalized:
  assumes "0 < qnorm q"
  shows "qnorm (qscale (1 / qnorm q) q) = 1"
proof -
  have "qdot q q = qnorm q * qnorm q"
    by (simp add: qnorm_sqrt_qdot qdot_self_nonneg)
  then have "qdot (qscale (1 / qnorm q) q) (qscale (1 / qnorm q) q) = 1"
    using assms by (simp add: qdot_linear)
  then show ?thesis by (simp add: qnorm_eq_1_iff)
qed

lemma qdiv_qnorm:
  assumes "0 < qnorm q"
  shows "qdiv q (qnorm q) = Inr (qscale (1 / qnorm q) q)"
    and "qnorm (qscale (1 / qnorm q) q) = 1"
  using assms by (simp_all add: qdiv_nonzero qnorm_normalized)

lemma qscale_qscale: "qscale a (qscale b q) = qscale (a * b) q"
  by (cases q) simp

lemma qscale_1: "qscale 1 q = q"
  by (cases q) simp

lemma qadd_qscale_0: "qadd a (qscale 0 b) = a"
  by (cases a, cases b) simp

lemma qadd_qsub_cancel: "qadd a (qsub b a) = b"
  by (cases a, cases b) simp

lemma qadd_qscale_qsub: "qadd (qscale d a) (qsub b (qscale d a)) = b"
  by (rule qadd_qsub_cancel)

lemma qneg_unit: "qdot (qneg v) (qneg v) = qdot v v"
  by (simp add: qdot_linear)

text \<open>The two inputs after normalisation, the sign flip and the branch.\<close>

lemma quat_slerp_unit:
  assumes u: "qnorm u = 1" and v: "qnorm v = 1"
  shows "quat_slerp u v t =
     (let dot = qdot u v;
          v' = (if dot < 0 then qneg v else v);
          dot' = (if dot < 0 then - dot else dot)
      in if dot' > 0.9995 then
           let result = qadd u (qscale t (qsub v' u))
           in qdiv result (qnorm result)
         else
           let theta = arccos (max (min dot' 1) (- 1)) * t;
               q2 = qsub v' (qscale dot' u)
           in bind_exn (qdiv q2 (qnorm q2)) (\<lambda>q2'.
              Inr (qadd (qscale (cos theta) u) (qscale (sin theta) q2'))))"
  by (simp add: quat_slerp_def qdiv_1 u v Let_def)

lemma lerp_norm_pos:
  assumes u: "qdot u u = 1" and v: "qdot v v = 1" and d: "qdot u v > 0.9995"
    and t: "0 \<le> t" "t \<le> 1"
  shows "0 < qnorm (qadd u (qscale t (qsub v u)))"
proof -
  let ?d = "qdot u v"
  have expand: "qdot (qadd u (qscale t (qsub v u))) (qadd u (qscale t (qsub v u)))
      = 1 - 2 * (t * (1 - t)) * (1 - ?d)"
    by (simp add: qdot_linear u v qdot_commute[of v u] algebra_simps)
  have a0: "0 \<le> t * (1 - t)" using t by simp
  have "0 \<le> (t - 1 / 2) * (t - 1 / 2)" by simp
  then have a1: "t * (1 - t) \<le> 1 / 4" by (simp add: algebra_simps)
  have "2 * (t * (1 - t)) * (1 - ?d) < 1"
  proof (cases "?d \<le> 1")
    case True
    then have "(t * (1 - t)) * (1 - ?d) \<le> (1 / 4) * (1 - ?d)"
      using a1 by (intro mult_right_mono) simp_all
    with d show ?thesis by simp
  next
    case False
    then have "(t * (1 - t)) * (1 - ?d) \<le> 0"
      using a0 by (intro mult_nonneg_nonpos) simp_all
    then show ?thesis by simp
  qed
  then show ?thesis by (simp add: qnorm_pos_iff expand)
qed

lemma slerp_q2:
  assumes u: "qdot u u = 1" and v: "qdot v v = 1"
    and d: "0 \<le> qdot u v" "qdot u v \<le> 0.9995"
  shows "qdot (qsub v (qscale (qdot u v) u)) (qsub v (qscale (qdot u v) u))
           = 1 - qdot u v * qdot u v"
    and "0 < qnorm (qsub v (qscale (qdot u v) u))"
    and "qdot u (qsub v (qscale (qdot u v) u)) = 0"
proof -
  let ?d = "qdot u v"
  show sq: "qdot (qsub v (qscale ?d u)) (qsub v (qscale ?d u)) = 1 - ?d * ?d"
    by (simp add: qdot_linear u v qdot_commute[of v u] algebra_simps)
  have "?d * ?d \<le> 0.9995 * 0.9995"
    using d by (intro mult_mono) simp_all
  then have "?d * ?d < 1" by simp
  then show "0 < qnorm (qsub v (qscale ?d u))"
    by (simp add: qnorm_pos_iff sq)
  show "qdot u (qsub v (qscale ?d u)) = 0"
    by (simp add: qdot_linear u)
qed

lemma sphere_unit:
  assumes u: "qdot u u = 1" and w: "qdot w w = 1" and uw: "qdot u w = 0"
  shows "qnorm (qadd (qscale (cos th) u) (qscale (sin th) w)) = 1"
proof -
  have "qdot (qadd (qscale (cos th) u) (qscale (sin th) w))
             (qadd (qscale (cos th) u) (qscale (sin th) w))
        = cos th * cos th + sin th * sin th"
    by (simp add: qdot_linear u w uw qdot_commute[of w u] algebra_simps)
  also have "\<dots> = 1"
    using sin_cos_squared_add2[of th] by (simp add: power2_eq_square)
  finally show ?thesis by (simp add: qnorm_eq_1_iff)
qed

lemma quat_slerp_unit_norm:
  assumes u: "qnorm u = 1" and v: "qnorm v = 1" and t: "0 \<le> t" "t \<le> 1"
  shows "\<exists>q. quat_slerp u v t = Inr q \<and> qnorm q = 1"
proof -
  define v' where "v' = (if qdot u v < 0 then qneg v else v)"
  define d where "d = (if qdot u v < 0 then - qdot u v else qdot u v)"
  have uu: "qdot u u = 1" and vv: "qdot v v = 1"
    using u v by (simp_all add: qnorm_eq_1_iff)
  have v'v': "qdot v' v' = 1" by (simp add: v'_def vv qdot_linear)
  have d: "d = qdot u v'" "0 \<le> d" by (simp_all add: v'_def d_def qdot_linear)
  have eq: "quat_slerp u v t =
     (if d > 0.9995 then
        qdiv (qadd u (qscale t (qsub v' u))) (qnorm (qadd u (qscale t (qsub v' u))))
      else
        bind_exn (qdiv (qsub v' (qscale d u)) (qnorm (qsub v' (qscale d u)))) (\<lambda>q2'.
          Inr (qadd (qscale (cos (arccos (max (min d 1) (- 1)) * t)) u)
                    (qscale (sin (arccos (max (min d 1) (- 1)) * t)) q2'))))"
    unfolding quat_slerp_unit[OF u v] v'_def d_def Let_def by simp
  show ?thesis
  proof (cases "d > 0.9995")
    case True
    then have "0 < qnorm (qadd u (qscale t (qsub v' u)))"
      using lerp_norm_pos[OF uu v'v' _ t] d by simp
    from qdiv_qnorm[OF this] True show ?thesis
      by (simp add: eq)
  next
    case False
    let ?q2 = "qsub v' (qscale d u)"
    let ?w = "qscale (1 / qnorm ?q2) ?q2"
    from False d have dd: "0 \<le> qdot u v'" "qdot u v' \<le> 0.9995" by simp_all
    note q2 = slerp_q2[OF uu v'v' dd, folded d(1)]
    have w1: "qdot ?w ?w = 1"
      using qdiv_qnorm(2)[OF q2(2)] by (simp add: qnorm_eq_1_iff)
    have uw: "qdot u ?w = 0"
      using q2(3) by (simp add: qdot_linear)
    show ?thesis
      using False sphere_unit[OF uu w1 uw]
      by (simp add: eq qdiv_qnorm(1)[OF q2(2)])
  qed
qed

lemma quat_slerp_normalizes:
  assumes "0 < qnorm q0" "0 < qnorm q1"
  shows "quat_slerp q0 q1 t
    = quat_slerp (qscale (1 / qnorm q0) q0) (qscale (1 / qnorm q1) q1) t"
  using assms by (simp add: quat_slerp_def qdiv_qnorm qdiv_1)

lemma quat_slerp_same:
  assumes q: "qnorm q = 1"
  shows "quat_slerp q q t = Inr q"
proof -
  have qq: "qdot q q = 1" using q by (simp add: qnorm_eq_1_iff)
  have "qadd q (qscale t (qsub q q)) = q" by (cases q) simp
  then show ?thesis
    by (simp add: quat_slerp_unit[OF q q] qq Let_def qdiv_1 q)
qed

lemma quat_slerp_0:
  assumes u: "qnorm u = 1" and v: "qnorm v = 1"
  shows "quat_slerp u v 0 = Inr u"
proof -
  define v' where "v' = (if qdot u v < 0 then qneg v else v)"
  define d where "d = (if qdot u v < 0 then - qdot u v else qdot u v)"
  have uu: "qdot u u = 1" and vv: "qdot v v = 1"
    using u v by (simp_all add: qnorm_eq_1_iff)
  have v'v': "qdot v' v' = 1" by (simp add: v'_def vv qdot_linear)
  have d: "d = qdot u v'" "0 \<le> d" by (simp_all add: v'_def d_def qdot_linear)
  have eq: "quat_slerp u v 0 =
     (if d > 0.9995 then
        qdiv (qadd u (qscale 0 (qsub v' u))) (qnorm (qadd u (qscale 0 (qsub v' u))))
      else
        bind_exn (qdiv (qsub v' (qscale d u)) (qnorm (qsub v' (qscale d u)))) (\<lambda>q2'.
          Inr (qadd (qscale (cos (arccos (max (min d 1) (- 1)) * 0)) u)
                    (qscale (sin (arccos (max (min d 1) (- 1)) * 0)) q2'))))"
    unfolding quat_slerp_unit[OF u v] v'_def d_def Let_def by simp
  show ?thesis
  proof (cases "d > 0.9995")
    case True
    then show ?thesis
      by (simp add: eq qadd_qscale_0 qdiv_1 u)
  next
    case False
    from False d have dd: "0 \<le> qdot u v'" "qdot u v' \<le> 0.9995" by simp_all
    note q2 = slerp_q2[OF uu v'v' dd, folded d(1)]
    show ?thesis
      using False by (simp add: eq qdiv_qnorm(1)[OF q2(2)] qscale_1 qadd_qscale_0)
  qed
qed

lemma quat_slerp_1:
  assumes u: "qnorm u = 1" and v: "qnorm v = 1"
  shows "quat_slerp u v 1 = Inr (if qdot u v < 0 then qneg v else v)"
proof -
  define v' where "v' = (if qdot u v < 0 then qneg v else v)"
  define d where "d = (if qdot u v < 0 then - qdot u v else qdot u v)"
  have uu: "qdot u u = 1" and vv: "qdot v v = 1"
    using u v by (simp_all add: qnorm_eq_1_iff)
  have v'v': "qdot v' v' = 1" by (simp add: v'_def vv qdot_linear)
  have v'1: "qnorm v' = 1" using v'v' by (simp add: qnorm_eq_1_iff)
  have d: "d = qdot u v'" "0 \<le> d" by (simp_all add: v'_def d_def qdot_linear)
  have eq: "quat_slerp u v 1 =
     (if d > 0.9995 then
        qdiv (qadd u (qscale 1 (qsub v' u))) (qnorm (qadd u (qscale 1 (qsub v' u))))
      else
        bind_exn (qdiv (qsub v' (qscale d u)) (qnorm (qsub v' (qscale d u)))) (\<lambda>q2'.
          Inr (qadd (qscale (cos (arccos (max (min d 1) (- 1)) * 1)) u)
                    (qscale (sin (arccos (max (min d 1) (- 1)) * 1)) q2'))))"
    unfolding quat_slerp_unit[OF u v] v'_def d_def Let_def by simp
  have "quat_slerp u v 1 = Inr v'"
  proof (cases "d > 0.9995")
    case True
    then show ?thesis
      by (simp add: eq qscale_1 qadd_qsub_cancel qdiv_1 v'1)
  next
    case False
    let ?q2 = "qsub v' (qscale d u)"
    from False d have dd: "0 \<le> qdot u v'" "qdot u v' \<le> 0.9995" by simp_all
    note q2 = slerp_q2[OF uu v'v' dd, folded d(1)]
    have d1: "- 1 \<le> d" "d \<le> 1" using False d(2) by simp_all
    have clamp: "min d 1 = d" "max d (- 1) = d" using d1 by simp_all
    have n2: "qnorm ?q2 = sqrt (1 - d * d)"
      by (simp add: qnorm_sqrt_qdot q2(1))
    have c: "cos (arccos d) = d" using d1 by (rule cos_arccos)
    have sn: "sin (arccos d) = qnorm ?q2"
      using d1 by (simp add: sin_arccos n2 power2_eq_square)
    have n0: "qnorm ?q2 \<noteq> 0" using q2(2) by simp
    have "qadd (qscale d u) (qscale (qnorm ?q2) (qscale (1 / qnorm ?q2) ?q2)) = v'"
      using n0 by (simp add: qscale_qscale qscale_1 qadd_qsub_cancel)
    then show ?thesis
      using False by (simp add: eq clamp c sn qdiv_qnorm(1)[OF q2(2)])
  qed
  then show ?thesis by (simp add: v'_def)
qed

text \<open>
  In exact arithmetic, for unit quaternions \<open>q\<close>, \<open>q0\<close> and \<open>q1\<close> and every \<open>t\<close>,
  \<open>quat_slerp q q t\<close> is \<open>q\<close>, \<open>quat_slerp q0 q1 0\<close> is \<open>q0\<close>, and
  \<open>quat_slerp q0 q1 1\<close> is \<open>q1\<close>, or \<open>- q1\<close> when the dot product is negative. These are
  facts about the real-valued reading of the code; what double-precision arithmetic
  returns differs from them by rounding, which is not stated here.
\<close>

lemma quat_slerp_endpoints:
  assumes "qnorm q = 1" and "qnorm q0 = 1" and "qnorm q1 = 1"
  shows "quat_slerp q q t = Inr q
    \<and> quat_slerp q0 q1 0 = Inr q0
    \<and> (quat_slerp q0 q1 1 = Inr q1 \<or> quat_slerp q0 q1 1 = Inr (qneg q1))
    \<and> quat_slerp q0 q1 1 = Inr (if qdot q0 q1 < 0 then qneg q1 else q1)"
  using quat_slerp_same[OF assms(1)] quat_slerp_0[OF assms(2,3)] quat_slerp_1[OF assms(2,3)]
  by simp

text \<open>
  In exact arithmetic, for nonzero quaternions and \<open>t\<close> in \<open>[0, 1]\<close>, \<open>quat_slerp\<close>
  returns a quaternion of norm 1, on the branch of the normalised linear interpolation and
  on the spherical branch. The resamplers need this to return. Overflow, underflow and
  rounding of the norm in double precision are not stated here.
\<close>

lemma quat_slerp_unit_result:
  assumes "q0 \<noteq> (0, 0, 0, 0)" and "q1 \<noteq> (0, 0, 0, 0)" and "0 \<le> t" and "t \<le> 1"
  shows "\<exists>q. quat_slerp q0 q1 t = Inr q \<and> qnorm q = 1"
proof -
  have p0: "0 < qnorm q0" using assms(1) by (rule qnorm_pos_nonzero)
  have p1: "0 < qnorm q1" using assms(2) by (rule qnorm_pos_nonzero)
  show ?thesis
    unfolding quat_slerp_normalizes[OF p0 p1]
    by (rule quat_slerp_unit_norm[OF qnorm_normalized[OF p0] qnorm_normalized[OF p1]
          assms(3,4)])
qed

section \<open>The round trip through a quaternion\<close>

lemma rot_to_quat_rotation:
  assumes rot: "is_rotation R"
  shows "rot_to_quat R = Inr (pivot_quat R)"
    and "qnorm (pivot_quat R) = 1"
    and "quat_to_rot (pivot_quat R) = R"
proof -
  obtain m00 m01 m02 m10 m11 m12 m20 m21 m22
    where R: "R = ((m00, m01, m02), (m10, m11, m12), (m20, m21, m22))"
    by (metis prod_cases3)
  from pivot_quat_rotation[OF rot[unfolded R]]
  show n: "qnorm (pivot_quat R) = 1" and "quat_to_rot (pivot_quat R) = R"
    by (simp_all only: R)
  show "rot_to_quat R = Inr (pivot_quat R)"
    by (simp only: rot_to_quat_pivot[of R] n qdiv_1)
qed

lemma quat_to_rot_qneg: "quat_to_rot (qneg q) = quat_to_rot q"
  by (cases q) (simp add: Let_def)

text \<open>
  In exact arithmetic, for every rotation matrix \<open>R\<close> (orthonormal rows, determinant 1),
  \<open>rot_to_quat\<close> returns a unit quaternion \<open>q\<close>, \<open>quat_to_rot q\<close> is \<open>R\<close> again, and
  the quaternion of opposite sign gives the same matrix. The error of the round trip in
  double precision is not stated here.
\<close>

lemma rot_to_quat_round_trip:
  assumes "is_rotation R"
  shows "\<exists>q. rot_to_quat R = Inr q \<and> qnorm q = 1 \<and> quat_to_rot q = R
    \<and> quat_to_rot (qneg q) = R"
  using rot_to_quat_rotation[OF assms] by (simp add: quat_to_rot_qneg)

section \<open>Indexing, the loops and the index mapping\<close>

lemma getitem_nonneg:
  "0 \<le> i \<Longrightarrow> nat i < length xs \<Longrightarrow> getitem xs i = Inr (xs ! nat i)"
  by (auto simp: getitem_def Let_def)

lemma getitem_last: "xs \<noteq> [] \<Longrightarrow> getitem xs (- 1) = Inr (last xs)"
  by (cases xs rule: rev_cases) (auto simp: getitem_def Let_def nat_add_distrib)

lemma entry_shaped:
  assumes "0 \<le> i" "i < int (length mat)" "0 \<le> j" "j < int (length (mat ! nat i))"
  shows "entry mat i j = Inr (mat ! nat i ! nat j)"
  using assms by (auto simp: entry_def getitem_def Let_def)

lemma mat4_to_rt_shaped:
  assumes "shaped mat"
  shows "mat4_to_rt mat = Inr (rot_part mat, trans_part mat)"
proof -
  have len: "3 \<le> length mat" "4 \<le> length (mat ! 0)" "4 \<le> length (mat ! 1)"
    "4 \<le> length (mat ! 2)"
    using assms by (simp_all add: shaped_def)
  have e: "entry mat 0 0 = Inr (mat ! 0 ! 0)" "entry mat 0 1 = Inr (mat ! 0 ! 1)"
    "entry mat 0 2 = Inr (mat ! 0 ! 2)" "entry mat 0 3 = Inr (mat ! 0 ! 3)"
    "entry mat 1 0 = Inr (mat ! 1 ! 0)" "entry mat 1 1 = Inr (mat ! 1 ! 1)"
    "entry mat 1 2 = Inr (mat ! 1 ! 2)" "entry mat 1 3 = Inr (mat ! 1 ! 3)"
    "entry mat 2 0 = Inr (mat ! 2 ! 0)" "entry mat 2 1 = Inr (mat ! 2 ! 1)"
    "entry mat 2 2 = Inr (mat ! 2 ! 2)" "entry mat 2 3 = Inr (mat ! 2 ! 3)"
    using len by (auto simp: entry_def getitem_def Let_def)
  show ?thesis
    unfolding mat4_to_rt_def e rot_part_def trans_part_def by simp
qed

lemma rot_to_quat_total:
  "rot_to_quat R = Inr (unit_quat R)" "qnorm (unit_quat R) = 1"
  using qdiv_qnorm[OF pivot_quat_nonzero[of R]]
  by (simp_all add: rot_to_quat_pivot unit_quat_def)

lemma unit_quat_rotation:
  assumes "is_rotation R"
  shows "unit_quat R = pivot_quat R" "quat_to_rot (unit_quat R) = R"
  using rot_to_quat_rotation[OF assms] by (simp_all add: unit_quat_def qscale_1)

lemma convert_loop_shaped:
  assumes "list_all shaped poses"
  shows "convert_loop poses Rs ts qs =
     Inr (Rs @ map rot_part poses, ts @ map trans_part poses,
          qs @ map (unit_quat \<circ> rot_part) poses)"
  using assms
proof (induction poses arbitrary: Rs ts qs)
  case Nil
  then show ?case by simp
next
  case (Cons mat rest)
  then show ?case
    by (simp add: mat4_to_rt_shaped rot_to_quat_total)
qed

lemma append_loop_map:
  assumes "\<And>k. k \<in> set ks \<Longrightarrow> body k = Inr (g k)"
  shows "append_loop body ks out = Inr (out @ map g ks)"
  using assms by (induction ks arbitrary: out) simp_all

text \<open>The index mapping.\<close>

lemma index_bounds:
  assumes N: "1 \<le> N" and M: "1 \<le> M" and k: "int k < M"
  shows "0 \<le> \<lfloor>source_position N M k\<rfloor>"
    and "\<lfloor>source_position N M k\<rfloor> < N"
    and "\<lfloor>source_position N M k\<rfloor> = (int k * N) div M"
proof -
  show fl: "\<lfloor>source_position N M k\<rfloor> = (int k * N) div M"
    unfolding source_position_def by (rule floor_divide_of_int_eq)
  have "0 \<le> int k * N" using N by simp
  then have "0 \<le> (int k * N) div M"
    using M by (simp add: pos_imp_zdiv_nonneg_iff)
  then show "0 \<le> \<lfloor>source_position N M k\<rfloor>"
    by (simp only: fl)
  have "int k * N < N * M" using k N by simp
  then have "real_of_int (int k * N) < real_of_int (N * M)"
    by (simp only: of_int_less_iff)
  then have "real_of_int (int k * N) < real_of_int N * real_of_int M"
    by simp
  moreover have "0 < real_of_int M" using M by simp
  ultimately have "source_position N M k < real_of_int N"
    unfolding source_position_def by (simp only: pos_divide_less_eq)
  then show "\<lfloor>source_position N M k\<rfloor> < N"
    by (simp only: floor_less_iff)
qed

lemma alpha_bounds:
  "0 \<le> p - real_of_int \<lfloor>p\<rfloor>" "p - real_of_int \<lfloor>p\<rfloor> \<le> 1"
  by linarith+

lemma append_loop_total:
  assumes "\<And>k. k \<in> set ks \<Longrightarrow> \<exists>v. body k = Inr v"
  shows "append_loop body ks out = Inr (out @ map (\<lambda>k. projr (body k)) ks)"
proof (rule append_loop_map)
  fix k assume "k \<in> set ks"
  then obtain v where "body k = Inr v" using assms by blast
  then show "body k = Inr (projr (body k))" by simp
qed

lemma interpolate_pose_shaped:
  assumes "shaped a" "shaped b"
  shows "interpolate_pose a b alpha =
     bind_exn (quat_slerp (unit_quat (rot_part a)) (unit_quat (rot_part b)) alpha) (\<lambda>q.
       Inr (rt_to_mat4 (quat_to_rot q)
              (vadd (vscale (1 - alpha) (trans_part a)) (vscale alpha (trans_part b)))))"
  using assms
  by (simp add: interpolate_pose_def mat4_to_rt_shaped rot_to_quat_total)

lemma interpolate_pose_total:
  assumes "shaped a" "shaped b" "0 \<le> alpha" "alpha \<le> 1"
  shows "\<exists>m. interpolate_pose a b alpha = Inr m"
proof -
  obtain q where "quat_slerp (unit_quat (rot_part a)) (unit_quat (rot_part b)) alpha = Inr q"
    using quat_slerp_unit_norm[OF rot_to_quat_total(2) rot_to_quat_total(2) assms(3,4)]
    by blast
  then show ?thesis
    by (simp add: interpolate_pose_shaped[OF assms(1,2)])
qed

lemma pose_at_boundary:
  assumes "poses \<noteq> []" "N - 1 \<le> \<lfloor>source_position N M k\<rfloor>"
    "0 \<le> \<lfloor>source_position N M k\<rfloor>"
  shows "pose_at poses ts qs N M k = Inr (last poses)"
  using assms by (simp add: pose_at_def Let_def getitem_last)

lemma pose_at_interpolate:
  assumes sh: "list_all shaped poses" and N: "N = int (length poses)"
    and i0: "0 \<le> \<lfloor>source_position N M k\<rfloor>"
    and i1: "\<lfloor>source_position N M k\<rfloor> < N - 1"
  shows "pose_at poses (map trans_part poses) (map (unit_quat \<circ> rot_part) poses) N M k
    = interpolate_pose
        (poses ! nat \<lfloor>source_position N M k\<rfloor>)
        (poses ! nat (\<lfloor>source_position N M k\<rfloor> + 1))
        (source_position N M k
          - real_of_int \<lfloor>source_position N M k\<rfloor>)"
proof -
  let ?i = "\<lfloor>source_position N M k\<rfloor>"
  have "nat i < length poses \<and> nat (i + 1) < length poses"
    if "0 \<le> i" "i < N - 1" for i :: int
    using that N by auto
  from this[OF i0 i1]
  have a: "nat ?i < length poses" and b: "nat (?i + 1) < length poses"
    by blast+
  have sa: "shaped (poses ! nat ?i)" and sb: "shaped (poses ! nat (?i + 1))"
    using sh a b by (simp_all add: list_all_length)
  have g: "getitem (map f poses) ?i = Inr (f (poses ! nat ?i))"
    "getitem (map f poses) (?i + 1) = Inr (f (poses ! nat (?i + 1)))" for f :: "mat4 \<Rightarrow> 'b"
    using a b i0 by (simp_all add: getitem_nonneg)
  have "\<not> ?i < 0" "\<not> N - 1 \<le> ?i" using i0 i1 by linarith+
  then show ?thesis
    unfolding pose_at_def Let_def interpolate_pose_shaped[OF sa sb]
    by (simp only: if_False g bind_exn_Inr comp_apply)
qed

lemma resample_poses_run:
  assumes sh: "list_all shaped poses" and ne: "poses \<noteq> []" and M: "1 \<le> M"
  shows "\<exists>out. resample_poses poses M = Inr out \<and> length out = nat M \<and>
    (\<forall>k<nat M. pose_at poses (map trans_part poses) (map (unit_quat \<circ> rot_part) poses)
        (int (length poses)) M k = Inr (out ! k))"
proof -
  let ?N = "int (length poses)"
  let ?body = "pose_at poses (map trans_part poses) (map (unit_quat \<circ> rot_part) poses) ?N M"
  have N: "1 \<le> ?N" using ne by (cases poses) simp_all
  have body: "\<exists>v. ?body k = Inr v" if "k \<in> set (py_range M)" for k
  proof -
    let ?p = "source_position ?N M k"
    from that have k: "int k < M" by (simp add: py_range_def)
    note ib = index_bounds[OF N M k]
    show ?thesis
    proof (cases "?N - 1 \<le> \<lfloor>?p\<rfloor>")
      case True
      then show ?thesis
        using pose_at_boundary[OF ne True ib(1)] by blast
    next
      case False
      then have lt: "\<lfloor>?p\<rfloor> < ?N - 1" by simp
      have a: "nat \<lfloor>?p\<rfloor> < length poses" and b: "nat (\<lfloor>?p\<rfloor> + 1) < length poses"
        using ib(1) lt by linarith+
      have sa: "shaped (poses ! nat \<lfloor>?p\<rfloor>)" and sb: "shaped (poses ! nat (\<lfloor>?p\<rfloor> + 1))"
        using sh a b by (simp_all add: list_all_length)
      show ?thesis
        unfolding pose_at_interpolate[OF sh refl ib(1) lt]
        by (rule interpolate_pose_total[OF sa sb alpha_bounds])
    qed
  qed
  have run: "resample_poses poses M = Inr (map (\<lambda>k. projr (?body k)) (py_range M))"
    using ne
    by (simp add: resample_poses_def convert_loop_shaped[OF sh] append_loop_total[OF body])
  show ?thesis
  proof (intro exI conjI allI impI)
    show "resample_poses poses M = Inr (map (\<lambda>k. projr (?body k)) (py_range M))"
      by (rule run)
    show "length (map (\<lambda>k. projr (?body k)) (py_range M)) = nat M"
      by (simp add: py_range_def)
    fix k assume k: "k < nat M"
    then have "k \<in> set (py_range M)" by (simp add: py_range_def)
    from body[OF this] obtain v where v: "?body k = Inr v" by blast
    show "?body k = Inr (map (\<lambda>k. projr (?body k)) (py_range M) ! k)"
      using k by (simp add: py_range_def v)
  qed
qed

lemma frame_at_boundary:
  assumes "frames \<noteq> []" "N - 1 \<le> \<lfloor>source_position N M k\<rfloor>"
    "0 \<le> \<lfloor>source_position N M k\<rfloor>"
  shows "frame_at cv frames N M k = Inr (last frames)"
  using assms by (simp add: frame_at_def Let_def getitem_last)

lemma frame_at_blend:
  assumes N: "N = int (length frames)"
    and i0: "0 \<le> \<lfloor>source_position N M k\<rfloor>"
    and i1: "\<lfloor>source_position N M k\<rfloor> < N - 1"
  shows "frame_at cv frames N M k
    = Inr (addWeighted cv
        (frames ! nat \<lfloor>source_position N M k\<rfloor>)
        (1 - (source_position N M k
               - real_of_int \<lfloor>source_position N M k\<rfloor>))
        (frames ! nat (\<lfloor>source_position N M k\<rfloor> + 1))
        (source_position N M k
          - real_of_int \<lfloor>source_position N M k\<rfloor>)
        0)"
proof -
  let ?i = "\<lfloor>source_position N M k\<rfloor>"
  have "nat i < length frames \<and> nat (i + 1) < length frames"
    if "0 \<le> i" "i < N - 1" for i :: int
    using that N by auto
  from this[OF i0 i1]
  have a: "nat ?i < length frames" and b: "nat (?i + 1) < length frames"
    by blast+
  have g: "getitem frames ?i = Inr (frames ! nat ?i)"
    "getitem frames (?i + 1) = Inr (frames ! nat (?i + 1))"
    using a b i0 by (simp_all add: getitem_nonneg)
  have "\<not> ?i < 0" "\<not> N - 1 \<le> ?i" using i0 i1 by linarith+
  then show ?thesis
    unfolding frame_at_def Let_def
    by (simp only: if_False g bind_exn_Inr)
qed

lemma frame_at_total:
  assumes ne: "frames \<noteq> []" and M: "1 \<le> M" and k: "int k < M"
  shows "\<exists>v. frame_at cv frames (int (length frames)) M k = Inr v"
proof -
  let ?N = "int (length frames)"
  have N: "1 \<le> ?N" using ne by (cases frames) simp_all
  note ib = index_bounds[OF N M k]
  show ?thesis
  proof (cases "?N - 1 \<le> \<lfloor>source_position ?N M k\<rfloor>")
    case True
    then show ?thesis using frame_at_boundary[OF ne True ib(1)] by blast
  next
    case False
    then have "\<lfloor>source_position ?N M k\<rfloor> < ?N - 1" by simp
    from frame_at_blend[OF refl ib(1) this] show ?thesis by blast
  qed
qed

lemma resample_frames_run:
  assumes op: "isOpened (VideoCapture cv input_path)"
    and ne: "decoded (VideoCapture cv input_path) \<noteq> []"
    and cnt: "frame_count_of (VideoCapture cv input_path)
                = int (length (decoded (VideoCapture cv input_path)))"
    and cod: "length codec = 4"
    and wr: "\<And>rate sz. writer_isOpened cv output_path codec rate sz"
    and M: "1 \<le> M"
  shows "\<exists>w. resample_frames cv input_path output_path M codec = Inr w \<and>
    length (frames_out w) = nat M \<and>
    (\<forall>k<nat M. frame_at cv (decoded (VideoCapture cv input_path))
        (int (length (decoded (VideoCapture cv input_path)))) M k = Inr (frames_out w ! k))"
proof -
  let ?cap = "VideoCapture cv input_path"
  let ?frames = "decoded ?cap"
  let ?body = "frame_at cv ?frames (int (length ?frames)) M"
  have body: "\<exists>v. ?body k = Inr v" if "k \<in> set (py_range M)" for k
  proof -
    from that have "int k < M" by (simp add: py_range_def)
    then show ?thesis by (rule frame_at_total[OF ne M])
  qed
  have loop: "append_loop ?body (py_range M) []
      = Inr (map (\<lambda>k. projr (?body k)) (py_range M))"
    by (simp add: append_loop_total[OF body])
  have first: "getitem ?frames 0 = Inr (?frames ! 0)"
    using ne by (simp add: getitem_def Let_def)
  have "\<exists>sz.
    (if py_int (CAP_PROP_FRAME_WIDTH ?cap) = 0 \<or> py_int (CAP_PROP_FRAME_HEIGHT ?cap) = 0
      then bind_exn (getitem ?frames 0) (\<lambda>f0. case shape cv f0 of (h, w) \<Rightarrow> Inr (w, h))
      else Inr (py_int (CAP_PROP_FRAME_WIDTH ?cap), py_int (CAP_PROP_FRAME_HEIGHT ?cap)))
     = Inr sz"
    by (cases "shape cv (?frames ! 0)") (simp add: first)
  then obtain sz where sz:
    "(if py_int (CAP_PROP_FRAME_WIDTH ?cap) = 0 \<or> py_int (CAP_PROP_FRAME_HEIGHT ?cap) = 0
      then bind_exn (getitem ?frames 0) (\<lambda>f0. case shape cv f0 of (h, w) \<Rightarrow> Inr (w, h))
      else Inr (py_int (CAP_PROP_FRAME_WIDTH ?cap), py_int (CAP_PROP_FRAME_HEIGHT ?cap)))
     = Inr sz"
    by blast
  obtain width height where wh: "sz = (width, height)" by (cases sz)
  have "\<exists>rate. resample_frames cv input_path output_path M codec
      = Inr \<lparr>fps = rate, frame_size = (width, height),
             frames_out = map (\<lambda>k. projr (?body k)) (py_range M)\<rparr>"
    using op ne M cod wr
    by (simp add: resample_frames_def Let_def sz wh cnt loop)
  then obtain rate where run: "resample_frames cv input_path output_path M codec
      = Inr \<lparr>fps = rate, frame_size = (width, height),
             frames_out = map (\<lambda>k. projr (?body k)) (py_range M)\<rparr>"
    by blast
  show ?thesis
  proof (intro exI conjI allI impI)
    show "resample_frames cv input_path output_path M codec
      = Inr \<lparr>fps = rate, frame_size = (width, height),
             frames_out = map (\<lambda>k. projr (?body k)) (py_range M)\<rparr>"
      by (rule run)
    show "length (frames_out \<lparr>fps = rate, frame_size = (width, height),
             frames_out = map (\<lambda>k. projr (?body k)) (py_range M)\<rparr>) = nat M"
      by (simp add: py_range_def)
    fix k assume k: "k < nat M"
    then have "k \<in> set (py_range M)" by (simp add: py_range_def)
    from body[OF this] obtain v where v: "?body k = Inr v" by blast
    show "?body k = Inr (frames_out \<lparr>fps = rate, frame_size = (width, height),
             frames_out = map (\<lambda>k. projr (?body k)) (py_range M)\<rparr> ! k)"
      using k by (simp add: py_range_def v)
  qed
qed

section \<open>Interpolation with weight zero\<close>

lemma vadd_blend_0: "vadd (vscale 1 ta) (vscale 0 tb) = ta"
  by (cases ta, cases tb) simp

lemma interpolate_pose_alpha_0:
  assumes "shaped a" "shaped b"
  shows "interpolate_pose a b 0
    = Inr (rt_to_mat4 (quat_to_rot (unit_quat (rot_part a))) (trans_part a))"
  by (simp add: interpolate_pose_shaped[OF assms]
      quat_slerp_0[OF rot_to_quat_total(2) rot_to_quat_total(2)] vadd_blend_0)

lemma is_poseD:
  assumes "is_pose mat"
  shows "shaped mat" and "is_rotation (rot_part mat)"
    and "rt_to_mat4 (rot_part mat) (trans_part mat) = mat"
proof -
  from assms obtain R t where rt: "mat4_to_rt mat = Inr (R, t)"
    and rot: "is_rotation R" and mat: "mat = rt_to_mat4 R t"
    by (auto simp: is_pose_def split: sum.splits)
  obtain r00 r01 r02 r10 r11 r12 r20 r21 r22 t0 t1 t2
    where R: "R = ((r00, r01, r02), (r10, r11, r12), (r20, r21, r22))"
      and t: "t = (t0, t1, t2)"
    by (metis prod_cases3)
  have m: "mat = [[r00, r01, r02, t0], [r10, r11, r12, t1], [r20, r21, r22, t2], [0, 0, 0, 1]]"
    by (simp add: mat R t)
  show sh: "shaped mat" by (simp add: m shaped_def)
  have parts: "rot_part mat = R" "trans_part mat = t"
    by (simp_all add: m R t rot_part_def trans_part_def)
  show "is_rotation (rot_part mat)" by (simp add: parts rot)
  show "rt_to_mat4 (rot_part mat) (trans_part mat) = mat"
    unfolding parts by (simp only: mat)
qed

lemma interpolate_pose_0_pose:
  assumes a: "is_pose a" and b: "shaped b"
  shows "interpolate_pose a b 0 = Inr a"
  using interpolate_pose_alpha_0[OF is_poseD(1)[OF a] b]
  by (simp add: unit_quat_rotation(2)[OF is_poseD(2)[OF a]] is_poseD(3)[OF a])

lemma source_position_same:
  assumes "1 \<le> N"
  shows "source_position N N k = real k"
  using assms by (simp add: source_position_def)


lemma two_poses_shaped: "list_all shaped two_poses"
  by (simp add: two_poses_def shaped_def)

lemma two_poses_are_poses: "list_all is_pose two_poses"
  by (simp add: two_poses_def is_pose_def mat4_to_rt_def entry_def getitem_def
      is_rotation_def ident3_def)


section \<open>The resamplers\<close>

subsection \<open>When the frame count agrees with the decoded frames\<close>

text \<open>
  Both resamplers map the target index \<open>k\<close> to the position \<open>p = k * N / M\<close>
  (\<open>source_position\<close>), take \<open>i = floor p\<close> and \<open>alpha = p - i\<close>. For a non-empty
  list of shaped poses, and for frames whose count \<open>N\<close> is the number of decoded frames,
  both return; the item at index \<open>k\<close> is the last source item whenever \<open>i \<ge> N - 1\<close>,
  whatever \<open>alpha\<close> is, and the interpolation of the items \<open>i\<close> and \<open>i + 1\<close> with weight
  \<open>alpha\<close> whenever \<open>0 \<le> i < N - 1\<close>.
\<close>

lemma resample_index_mapping:
  assumes sh: "list_all shaped poses" and ne: "poses \<noteq> []"
    and op: "isOpened (VideoCapture cv input_path)"
    and nef: "decoded (VideoCapture cv input_path) \<noteq> []"
    and cnt: "frame_count_of (VideoCapture cv input_path)
                = int (length (decoded (VideoCapture cv input_path)))"
    and cod: "length codec = 4"
    and wr: "\<And>rate sz. writer_isOpened cv output_path codec rate sz"
    and M: "1 \<le> M" and k: "int k < M"
  shows "(\<exists>out. resample_poses poses M = Inr out \<and>
      (let N = int (length poses);
           p = source_position N M k; i = \<lfloor>p\<rfloor>; alpha = p - real_of_int i
       in (N - 1 \<le> i \<longrightarrow> out ! k = last poses) \<and>
          (0 \<le> i \<and> i < N - 1 \<longrightarrow>
             interpolate_pose (poses ! nat i) (poses ! nat (i + 1)) alpha = Inr (out ! k))))
    \<and> (\<exists>w. resample_frames cv input_path output_path M codec = Inr w \<and>
      (let frames = decoded (VideoCapture cv input_path); N = int (length frames);
           p = source_position N M k; i = \<lfloor>p\<rfloor>; alpha = p - real_of_int i
       in (N - 1 \<le> i \<longrightarrow> frames_out w ! k = last frames) \<and>
          (0 \<le> i \<and> i < N - 1 \<longrightarrow>
             frames_out w ! k
               = addWeighted cv (frames ! nat i) (1 - alpha) (frames ! nat (i + 1)) alpha 0)))"
proof (rule conjI)
  let ?N = "int (length poses)"
  have N: "1 \<le> ?N" using ne by (cases poses) simp_all
  have kM: "k < nat M" using k by simp
  note ib = index_bounds[OF N M k]
  from resample_poses_run[OF sh ne M] obtain out
    where run: "resample_poses poses M = Inr out"
      and at: "pose_at poses (map trans_part poses) (map (unit_quat \<circ> rot_part) poses)
                 ?N M k = Inr (out ! k)"
    using kM by blast
  have b: "out ! k = last poses" if "?N - 1 \<le> \<lfloor>source_position ?N M k\<rfloor>"
    using pose_at_boundary[OF ne that ib(1)] at by simp
  have i: "interpolate_pose (poses ! nat \<lfloor>source_position ?N M k\<rfloor>)
        (poses ! nat (\<lfloor>source_position ?N M k\<rfloor> + 1))
        (source_position ?N M k - real_of_int \<lfloor>source_position ?N M k\<rfloor>) = Inr (out ! k)"
    if "\<lfloor>source_position ?N M k\<rfloor> < ?N - 1"
    using pose_at_interpolate[OF sh refl ib(1) that] at by simp
  show "\<exists>out. resample_poses poses M = Inr out \<and>
      (let N = int (length poses);
           p = source_position N M k; i = \<lfloor>p\<rfloor>; alpha = p - real_of_int i
       in (N - 1 \<le> i \<longrightarrow> out ! k = last poses) \<and>
          (0 \<le> i \<and> i < N - 1 \<longrightarrow>
             interpolate_pose (poses ! nat i) (poses ! nat (i + 1)) alpha = Inr (out ! k)))"
    unfolding Let_def using run b i by blast
next
  let ?frames = "decoded (VideoCapture cv input_path)"
  let ?N = "int (length ?frames)"
  have N: "1 \<le> ?N" using nef by (cases ?frames) simp_all
  have kM: "k < nat M" using k by simp
  note ib = index_bounds[OF N M k]
  from resample_frames_run[OF op nef cnt cod wr M] obtain w
    where run: "resample_frames cv input_path output_path M codec = Inr w"
      and at: "frame_at cv ?frames ?N M k = Inr (frames_out w ! k)"
    using kM by blast
  have b: "frames_out w ! k = last ?frames" if "?N - 1 \<le> \<lfloor>source_position ?N M k\<rfloor>"
    using frame_at_boundary[OF nef that ib(1)] at by simp
  have i: "frames_out w ! k = addWeighted cv
        (?frames ! nat \<lfloor>source_position ?N M k\<rfloor>)
        (1 - (source_position ?N M k - real_of_int \<lfloor>source_position ?N M k\<rfloor>))
        (?frames ! nat (\<lfloor>source_position ?N M k\<rfloor> + 1))
        (source_position ?N M k - real_of_int \<lfloor>source_position ?N M k\<rfloor>) 0"
    if "\<lfloor>source_position ?N M k\<rfloor> < ?N - 1"
    using frame_at_blend[OF refl ib(1) that] at by simp
  show "\<exists>w. resample_frames cv input_path output_path M codec = Inr w \<and>
      (let frames = decoded (VideoCapture cv input_path); N = int (length frames);
           p = source_position N M k; i = \<lfloor>p\<rfloor>; alpha = p - real_of_int i
       in (N - 1 \<le> i \<longrightarrow> frames_out w ! k = last frames) \<and>
          (0 \<le> i \<and> i < N - 1 \<longrightarrow>
             frames_out w ! k
               = addWeighted cv (frames ! nat i) (1 - alpha) (frames ! nat (i + 1)) alpha 0))"
    unfolding Let_def using run b i by blast
qed

text \<open>Under the same hypotheses both resamplers return exactly \<open>M\<close> items.\<close>

lemma resample_length:
  assumes sh: "list_all shaped poses" and ne: "poses \<noteq> []"
    and op: "isOpened (VideoCapture cv input_path)"
    and nef: "decoded (VideoCapture cv input_path) \<noteq> []"
    and cnt: "frame_count_of (VideoCapture cv input_path)
                = int (length (decoded (VideoCapture cv input_path)))"
    and cod: "length codec = 4"
    and wr: "\<And>rate sz. writer_isOpened cv output_path codec rate sz"
    and M: "1 \<le> M"
  shows "(\<exists>out. resample_poses poses M = Inr out \<and> int (length out) = M)
    \<and> (\<exists>w. resample_frames cv input_path output_path M codec = Inr w
          \<and> int (length (frames_out w)) = M)"
proof -
  from resample_poses_run[OF sh ne M] obtain out
    where "resample_poses poses M = Inr out" "length out = nat M" by blast
  moreover from resample_frames_run[OF op nef cnt cod wr M] obtain w
    where "resample_frames cv input_path output_path M codec = Inr w"
      "length (frames_out w) = nat M" by blast
  ultimately show ?thesis using M by auto
qed

subsection \<open>The scenario of the specification\<close>

text \<open>The identity and a quarter turn about the vertical axis at \<open>(1, 0, 0)\<close>, resampled
  to three poses: the middle one has the weight \<open>2 / 3\<close>, so its translation is
  \<open>(2 / 3, 0, 0)\<close> and its rotation is a turn of sixty degrees about the same axis.\<close>

lemma half_sqrt2_small: "sqrt 2 / 2 \<le> (0.9995 :: real)"
proof -
  have "sqrt 2 \<le> sqrt (9 / 4)" by (simp del: real_sqrt_divide)
  also have "sqrt (9 / 4 :: real) = 3 / 2"
    by (rule real_sqrt_unique) (simp_all add: power2_eq_square)
  finally show ?thesis by simp
qed

lemma quat_slerp_quarter_turn:
  "quat_slerp (1, 0, 0, 0) (sqrt 2 / 2, 0, sqrt 2 / 2, 0) (2 / 3) = Inr (sqrt 3 / 2, 0, 1 / 2, 0)"
proof -
  have u: "qnorm (1, 0, 0, 0) = 1" by simp
  have "(sqrt 2 / 2) * (sqrt 2 / 2) + (sqrt 2 / 2) * (sqrt 2 / 2) = (1 :: real)" by simp
  then have v: "qnorm (sqrt 2 / 2, 0, sqrt 2 / 2, 0) = 1" by simp
  have d0: "0 \<le> sqrt 2 / (2 :: real)" by simp
  have d1: "\<not> (0.9995 :: real) < sqrt 2 / 2" using half_sqrt2_small by simp
  have "sqrt 2 / 2 \<le> (1 :: real)" using half_sqrt2_small by simp
  then have cmin: "min (sqrt 2 / 2) (1 :: real) = sqrt 2 / 2"
    by (rule min_absorb1)
  have "(- 1 :: real) \<le> 0" by simp
  then have "(- 1 :: real) \<le> sqrt 2 / 2" using d0 by (rule order_trans)
  then have cmax: "max (sqrt 2 / 2) (- 1 :: real) = sqrt 2 / 2"
    by (rule max_absorb1)
  note clamp = cmin cmax
  have "arccos (cos (pi / 4)) = pi / 4" by (rule arccos_cos) simp_all
  then have ac: "arccos (sqrt 2 / 2) = pi / 4" by (simp add: cos_45)
  have th: "pi / 4 * (2 / 3) = pi / 6" by simp
  have "qnorm (0, 0, a, 0) = a" if "0 \<le> a" for a :: real
    using that by simp
  from this[OF d0] have q2: "qnorm (0, 0, sqrt 2 / 2, 0) = sqrt 2 / 2" .
  show ?thesis
    unfolding quat_slerp_unit[OF u v]
    using d0 d1 by (simp add: Let_def clamp ac th cos_30 sin_30 del: qnorm.simps)
       (simp add: q2 del: qnorm.simps)
qed

lemma unit_quat_identity: "unit_quat ((1, 0, 0), (0, 1, 0), (0, 0, 1)) = (1, 0, 0, 0)"
proof -
  have "sqrt (4 :: real) = 2"
    by (rule real_sqrt_unique) simp_all
  then have "pivot_quat ((1, 0, 0), (0, 1, 0), (0, 0, 1)) = (1, 0, 0, 0)"
    by (simp add: Let_def)
  moreover have "is_rotation ((1, 0, 0), (0, 1, 0), (0, 0, 1))"
    by (simp add: is_rotation_def ident3_def)
  ultimately show ?thesis by (simp add: unit_quat_rotation(1))
qed

lemma unit_quat_quarter_turn:
  "unit_quat ((0, 0, 1), (0, 1, 0), (- 1, 0, 0)) = (sqrt 2 / 2, 0, sqrt 2 / 2, 0)"
proof -
  have "sqrt 2 * sqrt 2 = (2 :: real)" by simp
  then have inv: "1 / sqrt 2 = sqrt 2 / (2 :: real)"
    by (simp add: field_simps)
  have "pivot_quat ((0, 0, 1), (0, 1, 0), (- 1, 0, 0))
      = (sqrt 2 / 2, 0, 1 / sqrt 2, 0)"
    by (simp add: Let_def)
  then have "pivot_quat ((0, 0, 1), (0, 1, 0), (- 1, 0, 0))
      = (sqrt 2 / 2, 0, sqrt 2 / 2, 0)"
    by (simp only: inv)
  moreover have "is_rotation ((0, 0, 1), (0, 1, 0), (- 1, 0, 0))"
    by (simp add: is_rotation_def ident3_def)
  ultimately show ?thesis by (simp add: unit_quat_rotation(1))
qed

lemma interpolate_two_poses:
  "interpolate_pose (two_poses ! 0) (two_poses ! 1) (2 / 3)
     = Inr [[1 / 2, 0, sqrt 3 / 2, 2 / 3], [0, 1, 0, 0], [- (sqrt 3 / 2), 0, 1 / 2, 0],
            [0, 0, 0, 1]]"
proof -
  have sh: "shaped (two_poses ! 0)" "shaped (two_poses ! 1)"
    by (simp_all add: two_poses_def shaped_def)
  have R: "rot_part (two_poses ! 0) = ((1, 0, 0), (0, 1, 0), (0, 0, 1))"
    "rot_part (two_poses ! 1) = ((0, 0, 1), (0, 1, 0), (- 1, 0, 0))"
    by (simp_all add: two_poses_def rot_part_def)
  have t: "trans_part (two_poses ! 0) = (0, 0, 0)" "trans_part (two_poses ! 1) = (1, 0, 0)"
    by (simp_all add: two_poses_def trans_part_def)
  have s3: "sqrt 3 * sqrt 3 = (3 :: real)" by simp
  show ?thesis
    unfolding interpolate_pose_shaped[OF sh] R t unit_quat_identity unit_quat_quarter_turn
      quat_slerp_quarter_turn
    by (simp add: Let_def s3)
qed

lemma two_poses_middle:
  "\<exists>out. resample_poses two_poses 3 = Inr out \<and> length out = 3
    \<and> out ! 1 = [[1 / 2, 0, sqrt 3 / 2, 2 / 3], [0, 1, 0, 0], [- (sqrt 3 / 2), 0, 1 / 2, 0],
                 [0, 0, 0, 1]]
    \<and> out ! 2 = last two_poses"
proof -
  have ne: "two_poses \<noteq> []" by (simp add: two_poses_def)
  have len: "int (length two_poses) = 2" by (simp add: two_poses_def)
  have p1: "source_position 2 3 1 = 2 / 3"
    by (simp add: source_position_def)
  have f1: "\<lfloor>source_position 2 3 1\<rfloor> = 0"
    unfolding p1 by (simp add: floor_eq_iff)
  have p2: "source_position 2 3 2 = 4 / 3"
    by (simp add: source_position_def)
  have f2: "\<lfloor>source_position 2 3 2\<rfloor> = 1"
    unfolding p2 by (simp add: floor_eq_iff)
  from resample_poses_run[OF two_poses_shaped ne, of 3] obtain out
    where run: "resample_poses two_poses 3 = Inr out" and l: "length out = 3"
      and at: "\<And>k. k < 3 \<Longrightarrow> pose_at two_poses (map trans_part two_poses)
          (map (unit_quat \<circ> rot_part) two_poses) 2 3 k = Inr (out ! k)"
    by (auto simp: len)
  have i0: "0 \<le> \<lfloor>source_position 2 3 1\<rfloor>"
    and i1: "\<lfloor>source_position 2 3 1\<rfloor> < 2 - 1"
    unfolding f1 by simp_all
  have "pose_at two_poses (map trans_part two_poses)
      (map (unit_quat \<circ> rot_part) two_poses) 2 3 1
    = interpolate_pose (two_poses ! 0) (two_poses ! 1) (2 / 3)"
    unfolding pose_at_interpolate[OF two_poses_shaped len[symmetric] i0 i1] f1 p1
    by simp
  then have mid: "out ! 1 = [[1 / 2, 0, sqrt 3 / 2, 2 / 3], [0, 1, 0, 0],
      [- (sqrt 3 / 2), 0, 1 / 2, 0], [0, 0, 0, 1]]"
    using at[of 1] interpolate_two_poses by simp
  have "pose_at two_poses (map trans_part two_poses)
      (map (unit_quat \<circ> rot_part) two_poses) 2 3 2 = Inr (last two_poses)"
    by (rule pose_at_boundary) (simp_all add: ne f2)
  then have "out ! 2 = last two_poses"
    using at[of 2] by simp
  then show ?thesis using run l mid by blast
qed

subsection \<open>A frame count that disagrees with the decoded frames\<close>

text \<open>
  With a positive frame count in the metadata, \<open>resample_frames\<close> takes \<open>N\<close> from the
  metadata and never compares it with the frames it has read; the branch without a count
  in the metadata takes the number of frames read. \<open>short_capture\<close> reports ten frames
  and delivers three.
\<close>

text \<open>
  C1. On \<open>short_capture\<close> with \<open>M = 5\<close> the loop runs with \<open>N = 10\<close>: the target index 1
  is mapped to the position 2 and the target index 2 to the position 4, and at both the
  body raises \<open>IndexError\<close> instead of producing an item. With the source length 3 the
  index 1 is the blend of the frames 0 and 1 with the weight \<open>3 / 5\<close>, and the index 2
  the blend of the frames 1 and 2 with the weight \<open>1 / 5\<close>.
\<close>

theorem short_capture_index:
  "frame_count_of (VideoCapture short_capture ''in.mp4'') = 10
   \<and> decoded (VideoCapture short_capture ''in.mp4'') = [0, 10, 20]
   \<and> source_position 10 5 1 = 2
   \<and> source_position 10 5 2 = 4
   \<and> frame_at short_capture [0, 10, 20] 10 5 1 = Inl (IndexError ''list index out of range'')
   \<and> frame_at short_capture [0, 10, 20] 10 5 2 = Inl (IndexError ''list index out of range'')
   \<and> frame_at short_capture [0, 10, 20] 3 5 1 = Inr (0 * (1 - 3 / 5) + 10 * (3 / 5) + 0)
   \<and> frame_at short_capture [0, 10, 20] 3 5 2 = Inr (10 * (1 - 1 / 5) + 20 * (1 / 5) + 0)"
  by (simp add: short_capture_def ten_frames_def frame_count_of_def
      frame_at_def source_position_def getitem_def Let_def floor_eq_iff)

text \<open>
  C2. On \<open>short_capture\<close> with \<open>M = 5\<close>, \<open>resample_frames\<close> raises \<open>IndexError\<close> and
  returns no list of five frames.
\<close>

theorem short_capture_raises:
  "frame_count_of (VideoCapture short_capture ''in.mp4'') = 10
   \<and> length (decoded (VideoCapture short_capture ''in.mp4'')) = 3
   \<and> resample_frames short_capture ''in.mp4'' ''out.mp4'' 5 ''mp4v''
       = Inl (IndexError ''list index out of range'')"
  by (simp add: resample_frames_def short_capture_def ten_frames_def frame_count_of_def
      fps_orig_of_def py_range_def frame_at_def source_position_def getitem_def upt_rec Let_def)

subsection \<open>As many target items as source items\<close>

text \<open>In exact arithmetic, and for poses of the data model, the poses rebuilt on the
  interpolation path are the source poses. Neither holds of what the script is given:
  matrices read from JSON are orthonormal up to rounding at best.\<close>

lemma resample_identity_exact:
  assumes poses: "list_all is_pose poses" and ne: "poses \<noteq> []"
  shows "resample_poses poses (int (length poses)) = Inr poses
    \<and> (\<forall>k<length poses.
          source_position (int (length poses)) (int (length poses)) k = real k)"
proof -
  let ?N = "int (length poses)"
  have N: "1 \<le> ?N" using ne by (cases poses) simp_all
  have sh: "list_all shaped poses"
    using poses by (simp add: list_all_length is_poseD(1))
  from resample_poses_run[OF sh ne N] obtain out
    where run: "resample_poses poses ?N = Inr out" and len: "length out = length poses"
      and at: "\<And>k. k < length poses \<Longrightarrow>
        pose_at poses (map trans_part poses) (map (unit_quat \<circ> rot_part) poses) ?N ?N k
          = Inr (out ! k)"
    by auto
  have pos: "source_position ?N ?N k = real k" for k
    by (rule source_position_same[OF N])
  have "out ! k = poses ! k" if k: "k < length poses" for k
  proof (cases "Suc k = length poses")
    case True
    then have "pose_at poses (map trans_part poses) (map (unit_quat \<circ> rot_part) poses)
        ?N ?N k = Inr (last poses)"
      by (intro pose_at_boundary[OF ne]) (simp_all add: pos)
    moreover have "last poses = poses ! k"
      using ne by (simp add: last_conv_nth True[symmetric])
    ultimately show ?thesis using at[OF k] by simp
  next
    case False
    with k have lt: "\<lfloor>source_position ?N ?N k\<rfloor> < ?N - 1" by (simp add: pos)
    have i0: "0 \<le> \<lfloor>source_position ?N ?N k\<rfloor>" by (simp add: pos)
    have k1: "Suc k < length poses" using k False by simp
    have "pose_at poses (map trans_part poses) (map (unit_quat \<circ> rot_part) poses) ?N ?N k
        = interpolate_pose (poses ! k) (poses ! Suc k) 0"
      using pose_at_interpolate[OF sh refl i0 lt] by (simp add: pos nat_add_distrib)
    also have "\<dots> = Inr (poses ! k)"
      using poses sh k k1 by (intro interpolate_pose_0_pose) (simp_all add: list_all_length)
    finally show ?thesis using at[OF k] by simp
  qed
  then have "out = poses"
    using len by (intro nth_equalityI) simp_all
  then show ?thesis using run pos by simp
qed











subsection \<open>The branch for a negative index\<close>



section \<open>The derived frame rate\<close>





section \<open>The entry points\<close>

lemma main_poses_completed:
  assumes "main_poses path_exists json_load input output M = Completed (path, doc) line"
  shows "\<exists>poses out. path_exists input \<and> 0 < M
    \<and> json_load input ''poses'' = Some (JPoses poses)
    \<and> resample_poses poses M = Inr out \<and> path = output
    \<and> doc = (json_load input)
          (''poses'' \<mapsto> JPoses out,
           ''original_num_poses'' \<mapsto> JInt (int (length poses)),
           ''target_num_poses'' \<mapsto> JInt M)"
  using assms
  by (auto simp: main_poses_def Let_def
      split: if_splits option.splits jvalue.splits sum.splits)

text \<open>
  C9. When the input exists, its field \<open>poses\<close> holds a non-empty list of shaped poses
  and \<open>M \<ge> 1\<close>, the pose tool completes and writes to the output path a document in which
  \<open>poses\<close> is the resampled list, \<open>original_num_poses\<close> is \<open>N\<close>,
  \<open>target_num_poses\<close> is \<open>M\<close>, and every other field is as in the input; its fields are
  those of the input and the two counts.
\<close>

theorem main_poses_document:
  assumes ex: "path_exists input"
    and poses: "json_load input ''poses'' = Some (JPoses poses)"
    and sh: "list_all shaped poses" and ne: "poses \<noteq> []" and M: "1 \<le> M"
  shows "\<exists>out doc line.
      main_poses path_exists json_load input output M = Completed (output, doc) line
    \<and> resample_poses poses M = Inr out
    \<and> doc ''poses'' = Some (JPoses out)
    \<and> doc ''original_num_poses'' = Some (JInt (int (length poses)))
    \<and> doc ''target_num_poses'' = Some (JInt M)
    \<and> (\<forall>key. key \<notin> {''poses'', ''original_num_poses'', ''target_num_poses''}
           \<longrightarrow> doc key = json_load input key)
    \<and> dom doc = dom (json_load input) \<union> {''original_num_poses'', ''target_num_poses''}"
proof -
  from resample_poses_run[OF sh ne M] obtain out
    where run: "resample_poses poses M = Inr out" by blast
  let ?doc = "(json_load input)
          (''poses'' \<mapsto> JPoses out,
           ''original_num_poses'' \<mapsto> JInt (int (length poses)),
           ''target_num_poses'' \<mapsto> JInt M)"
  have main: "main_poses path_exists json_load input output M
      = Completed (output, ?doc)
          (''Wrote '' @ str_int (int (length out)) @ '' poses to '' @ output)"
    using ex poses M by (simp add: main_poses_def Let_def run)
  have d: "dom ?doc = dom (json_load input) \<union> {''original_num_poses'', ''target_num_poses''}"
    using poses by auto
  show ?thesis
    using main run d by (intro exI[of _ out] exI[of _ ?doc] exI conjI) auto
qed

theorem main_poses_document_witness:
  "list_all shaped two_poses \<and> two_poses \<noteq> []
   \<and> cameras ''poses'' = Some (JPoses two_poses)
   \<and> (\<exists>out doc line.
        main_poses (\<lambda>path. True) (\<lambda>path. cameras) ''cameras.json'' ''out.json'' 3
          = Completed (''out.json'', doc) line
      \<and> doc ''poses'' = Some (JPoses out)
      \<and> doc ''original_num_poses'' = Some (JInt 2)
      \<and> doc ''target_num_poses'' = Some (JInt 3)
      \<and> doc ''fps'' = Some (JOther 24)
      \<and> dom doc = {''poses'', ''fps'', ''original_num_poses'', ''target_num_poses''})"
proof -
  have ne: "two_poses \<noteq> []" by (simp add: two_poses_def)
  have len: "int (length two_poses) = 2" by (simp add: two_poses_def)
  have p: "cameras ''poses'' = Some (JPoses two_poses)" by (simp add: cameras_def)
  have f: "cameras ''fps'' = Some (JOther 24)" by (simp add: cameras_def)
  have d: "dom cameras = {''poses'', ''fps''}" by (auto simp: cameras_def)
  from main_poses_document[of "\<lambda>path. True" "''cameras.json''" "\<lambda>path. cameras"
      two_poses 3 "''out.json''", OF _ p two_poses_shaped ne]
  obtain out doc line where
    "main_poses (\<lambda>path. True) (\<lambda>path. cameras) ''cameras.json'' ''out.json'' 3
          = Completed (''out.json'', doc) line"
    "doc ''poses'' = Some (JPoses out)"
    "doc ''original_num_poses'' = Some (JInt 2)"
    "doc ''target_num_poses'' = Some (JInt 3)"
    "doc ''fps'' = cameras ''fps''"
    "dom doc = dom cameras \<union> {''original_num_poses'', ''target_num_poses''}"
    by (auto simp: len)
  then show ?thesis
    using two_poses_shaped ne p f d by (intro conjI exI[of _ out] exI[of _ doc] exI[of _ line]) auto
qed

lemma resample_frames_not_opened:
  assumes "\<not> isOpened (VideoCapture cv input)"
  shows "resample_frames cv input output M codec
    = Inl (RuntimeError (''Cannot open input video: '' @ input))"
  using assms by (simp add: resample_frames_def)

lemma resample_frames_no_frames:
  assumes "isOpened (VideoCapture cv input)"
    and "py_int (CAP_PROP_FRAME_COUNT (VideoCapture cv input)) \<le> 0"
    and "decoded (VideoCapture cv input) = []"
  shows "resample_frames cv input output M codec
    = Inl (RuntimeError ''Input video contains no frames.'')"
  using assms by (simp add: resample_frames_def Let_def)

lemma frame_size_known:
  assumes "frames \<noteq> []"
  shows "\<exists>sz.
    (if w0 = 0 \<or> h0 = 0
      then bind_exn (getitem frames 0) (\<lambda>f0. case shape cv f0 of (h, w) \<Rightarrow> Inr (w, h))
      else Inr (w0, h0)) = Inr sz"
proof -
  have "getitem frames 0 = Inr (frames ! 0)"
    using assms by (simp add: getitem_def Let_def)
  then show ?thesis
    by (cases "shape cv (frames ! 0)") simp
qed

lemma resample_frames_bad_target:
  assumes "isOpened (VideoCapture cv input)" and "decoded (VideoCapture cv input) \<noteq> []"
    and "M \<le> 0"
  shows "resample_frames cv input output M codec
    = Inl (ValueError ''target_frames must be > 0'')"
proof -
  from frame_size_known[OF assms(2)] obtain sz where
    "(if py_int (CAP_PROP_FRAME_WIDTH (VideoCapture cv input)) = 0
         \<or> py_int (CAP_PROP_FRAME_HEIGHT (VideoCapture cv input)) = 0
      then bind_exn (getitem (decoded (VideoCapture cv input)) 0)
             (\<lambda>f0. case shape cv f0 of (h, w) \<Rightarrow> Inr (w, h))
      else Inr (py_int (CAP_PROP_FRAME_WIDTH (VideoCapture cv input)),
                py_int (CAP_PROP_FRAME_HEIGHT (VideoCapture cv input)))) = Inr sz"
    by blast
  then show ?thesis
    using assms by (cases sz) (simp add: resample_frames_def Let_def)
qed

lemma resample_frames_writer_closed:
  assumes "isOpened (VideoCapture cv input)" and "decoded (VideoCapture cv input) \<noteq> []"
    and "0 < M" and "length codec = 4"
    and "\<And>rate sz. \<not> writer_isOpened cv output codec rate sz"
  shows "resample_frames cv input output M codec
    = Inl (RuntimeError (''Cannot open output for writing: '' @ output))"
proof -
  from frame_size_known[OF assms(2)] obtain sz where
    "(if py_int (CAP_PROP_FRAME_WIDTH (VideoCapture cv input)) = 0
         \<or> py_int (CAP_PROP_FRAME_HEIGHT (VideoCapture cv input)) = 0
      then bind_exn (getitem (decoded (VideoCapture cv input)) 0)
             (\<lambda>f0. case shape cv f0 of (h, w) \<Rightarrow> Inr (w, h))
      else Inr (py_int (CAP_PROP_FRAME_WIDTH (VideoCapture cv input)),
                py_int (CAP_PROP_FRAME_HEIGHT (VideoCapture cv input)))) = Inr sz"
    by blast
  then show ?thesis
    using assms by (cases sz) (simp add: resample_frames_def Let_def)
qed

lemma main_video_reports:
  assumes "path_exists input" and "resample_frames cv input output M codec = Inl e"
  shows "main_video cv path_exists input output M codec
    = SysExit 1 (''Error: '' @ exn_message e)"
  using assms by (simp add: main_video_def)

lemma frame_size_loaded:
  assumes "frames \<noteq> [] \<or> (w0 \<noteq> 0 \<and> h0 \<noteq> 0)"
  shows "\<exists>sz.
    (if w0 = 0 \<or> h0 = 0
      then bind_exn (getitem frames 0) (\<lambda>f0. case shape cv f0 of (h, w) \<Rightarrow> Inr (w, h))
      else Inr (w0, h0)) = Inr sz"
proof (cases "frames = []")
  case True
  with assms show ?thesis by simp
next
  case False
  then show ?thesis by (rule frame_size_known)
qed

lemma resample_frames_target_check:
  assumes "frames_loaded (VideoCapture cv input)" and "M \<le> 0"
  shows "resample_frames cv input output M codec
    = Inl (ValueError ''target_frames must be > 0'')"
proof -
  from assms(1) have "decoded (VideoCapture cv input) \<noteq> []
      \<or> (py_int (CAP_PROP_FRAME_WIDTH (VideoCapture cv input)) \<noteq> 0
          \<and> py_int (CAP_PROP_FRAME_HEIGHT (VideoCapture cv input)) \<noteq> 0)"
    by (simp add: frames_loaded_def)
  from frame_size_loaded[OF this] obtain sz where
    "(if py_int (CAP_PROP_FRAME_WIDTH (VideoCapture cv input)) = 0
         \<or> py_int (CAP_PROP_FRAME_HEIGHT (VideoCapture cv input)) = 0
      then bind_exn (getitem (decoded (VideoCapture cv input)) 0)
             (\<lambda>f0. case shape cv f0 of (h, w) \<Rightarrow> Inr (w, h))
      else Inr (py_int (CAP_PROP_FRAME_WIDTH (VideoCapture cv input)),
                py_int (CAP_PROP_FRAME_HEIGHT (VideoCapture cv input)))) = Inr sz"
    by blast
  then show ?thesis
    using assms by (cases sz) (auto simp: resample_frames_def Let_def frames_loaded_def)
qed

lemma resample_frames_writer_check:
  assumes "frames_loaded (VideoCapture cv input)"
    and "0 < M" and "length codec = 4"
    and "\<And>rate sz. \<not> writer_isOpened cv output codec rate sz"
  shows "resample_frames cv input output M codec
    = Inl (RuntimeError (''Cannot open output for writing: '' @ output))"
proof -
  from assms(1) have "decoded (VideoCapture cv input) \<noteq> []
      \<or> (py_int (CAP_PROP_FRAME_WIDTH (VideoCapture cv input)) \<noteq> 0
          \<and> py_int (CAP_PROP_FRAME_HEIGHT (VideoCapture cv input)) \<noteq> 0)"
    by (simp add: frames_loaded_def)
  from frame_size_loaded[OF this] obtain sz where
    "(if py_int (CAP_PROP_FRAME_WIDTH (VideoCapture cv input)) = 0
         \<or> py_int (CAP_PROP_FRAME_HEIGHT (VideoCapture cv input)) = 0
      then bind_exn (getitem (decoded (VideoCapture cv input)) 0)
             (\<lambda>f0. case shape cv f0 of (h, w) \<Rightarrow> Inr (w, h))
      else Inr (py_int (CAP_PROP_FRAME_WIDTH (VideoCapture cv input)),
                py_int (CAP_PROP_FRAME_HEIGHT (VideoCapture cv input)))) = Inr sz"
    by blast
  then show ?thesis
    using assms by (cases sz) (auto simp: resample_frames_def Let_def frames_loaded_def)
qed

lemma bind_exn_Inl_iff:
  "(\<exists>e. bind_exn m f = Inl e) \<longleftrightarrow> (\<exists>e. m = Inl e) \<or> (\<exists>v e. m = Inr v \<and> f v = Inl e)"
  by (cases m) simp_all

lemma frame_at_no_frames: "\<exists>e. frame_at cv [] N M 0 = Inl e"
  by (simp add: frame_at_def source_position_def getitem_def Let_def)

lemma append_loop_fails_first:
  assumes "body k = Inl e"
  shows "append_loop body (k # ks) out = Inl e"
  using assms by simp

lemma py_range_pos: "0 < M \<Longrightarrow> py_range M = 0 # [1 ..< nat M]"
  by (simp add: py_range_def upt_conv_Cons)

lemma resample_frames_nonpositive:
  assumes "M \<le> 0"
  shows "\<exists>e. resample_frames cv input output M codec = Inl e"
  using assms
  by (auto simp: resample_frames_def Let_def bind_exn_def split: sum.splits prod.splits)

lemma resample_frames_no_decoded:
  assumes "decoded (VideoCapture cv input) = []"
  shows "\<exists>e. resample_frames cv input output M codec = Inl e"
proof (cases "0 < M")
  case False
  then show ?thesis by (intro resample_frames_nonpositive) simp
next
  case True
  obtain e where e: "frame_at cv [] (frame_count_of (VideoCapture cv input)) M 0 = Inl e"
    using frame_at_no_frames by blast
  have loop: "append_loop (frame_at cv [] (frame_count_of (VideoCapture cv input)) M)
      (py_range M) [] = Inl e"
    unfolding py_range_pos[OF True] by (simp add: e)
  show ?thesis
    using assms True
    by (auto simp: resample_frames_def Let_def loop getitem_def bind_exn_def
        split: sum.splits prod.splits)
qed

lemma reported_once_SysExit: "reported_once (SysExit n msg) status m \<longleftrightarrow> n = status \<and> msg = m"
  by (simp add: reported_once_def)

text \<open>
  C8, as the code has it. Every category ends the run at the check that finds it, and is
  reported once. The pose tool exits with status 2 for \<open>InputNotFound\<close>, 3 for
  \<open>MissingField\<close> and 4 for \<open>InvalidTargetCount\<close>, each after one message on standard
  error; \<open>EmptyInput\<close> leaves \<open>main\<close> as the \<open>ValueError\<close> that \<open>resample_poses\<close> raises,
  which the interpreter reports with a traceback and status 1. The video tool exits with
  status 2 for \<open>InputNotFound\<close> after one message, and reports every exception of
  \<open>resample_frames\<close> as the one line \<open>Error:\<close> followed by its message, with status 1:
  \<open>DecoderOpenFailure\<close>, \<open>EmptyInput\<close>, \<open>InvalidTargetCount\<close> and \<open>EncoderOpenFailure\<close>
  share the status and differ in the message. \<open>resample_frames\<close> raises for a capture
  that does not open, for every input without decoded frames (with the message of the
  empty input when the metadata has no positive count), for every target count that is
  not positive (with the message of the target count once the frames are loaded), and for
  a writer that does not open.
\<close>

theorem error_reports:
  "(\<not> path_exists input \<longrightarrow>
      reported_once (main_poses path_exists json_load input output M) 2
        (''Input not found: '' @ input))
   \<and> (path_exists input \<and> json_load input ''poses'' = None \<longrightarrow>
      reported_once (main_poses path_exists json_load input output M) 3
        ''Input JSON does not contain 'poses' key'')
   \<and> (path_exists input \<and> json_load input ''poses'' \<noteq> None \<and> M \<le> 0 \<longrightarrow>
      reported_once (main_poses path_exists json_load input output M) 4
        ''Target frames must be > 0'')
   \<and> (path_exists input \<and> json_load input ''poses'' = Some (JPoses []) \<and> 0 < M \<longrightarrow>
      main_poses path_exists json_load input output M
        = Uncaught (ValueError ''No poses to resample'')
      \<and> exit_status (main_poses path_exists json_load input output M) = 1
      \<and> stderr_lines (main_poses path_exists json_load input output M)
          = [''Traceback (most recent call last):'', ''ValueError: No poses to resample''])
   \<and> (\<not> path_exists input \<longrightarrow>
      reported_once (main_video cv path_exists input output M codec) 2
        (''Input file not found: '' @ input))
   \<and> (\<forall>e. path_exists input \<and> resample_frames cv input output M codec = Inl e \<longrightarrow>
      reported_once (main_video cv path_exists input output M codec) 1
        (''Error: '' @ exn_message e))
   \<and> (\<not> isOpened (VideoCapture cv input) \<longrightarrow>
      resample_frames cv input output M codec
        = Inl (RuntimeError (''Cannot open input video: '' @ input)))
   \<and> (decoded (VideoCapture cv input) = [] \<longrightarrow>
      (\<exists>e. resample_frames cv input output M codec = Inl e))
   \<and> (isOpened (VideoCapture cv input)
        \<and> py_int (CAP_PROP_FRAME_COUNT (VideoCapture cv input)) \<le> 0
        \<and> decoded (VideoCapture cv input) = [] \<longrightarrow>
      resample_frames cv input output M codec
        = Inl (RuntimeError ''Input video contains no frames.''))
   \<and> (M \<le> 0 \<longrightarrow> (\<exists>e. resample_frames cv input output M codec = Inl e))
   \<and> (frames_loaded (VideoCapture cv input) \<and> M \<le> 0 \<longrightarrow>
      resample_frames cv input output M codec
        = Inl (ValueError ''target_frames must be > 0''))
   \<and> (frames_loaded (VideoCapture cv input) \<and> 0 < M \<and> length codec = 4
        \<and> (\<forall>rate sz. \<not> writer_isOpened cv output codec rate sz) \<longrightarrow>
      resample_frames cv input output M codec
        = Inl (RuntimeError (''Cannot open output for writing: '' @ output)))"
proof (intro conjI impI allI)
  show "reported_once (main_poses path_exists json_load input output M) 2
      (''Input not found: '' @ input)" if "\<not> path_exists input"
    using that by (simp add: main_poses_def reported_once_def)
  show "reported_once (main_poses path_exists json_load input output M) 3
      ''Input JSON does not contain 'poses' key''"
    if "path_exists input \<and> json_load input ''poses'' = None"
    using that by (simp add: main_poses_def reported_once_def)
  show "reported_once (main_poses path_exists json_load input output M) 4
      ''Target frames must be > 0''"
    if "path_exists input \<and> json_load input ''poses'' \<noteq> None \<and> M \<le> 0"
    using that by (auto simp: main_poses_def reported_once_def)
  assume e: "path_exists input \<and> json_load input ''poses'' = Some (JPoses []) \<and> 0 < M"
  then show u: "main_poses path_exists json_load input output M
      = Uncaught (ValueError ''No poses to resample'')"
    by (simp add: main_poses_def resample_poses_def)
  show "exit_status (main_poses path_exists json_load input output M) = 1"
    by (simp add: u)
  show "stderr_lines (main_poses path_exists json_load input output M)
      = [''Traceback (most recent call last):'', ''ValueError: No poses to resample'']"
    by (simp add: u)
next
  show "reported_once (main_video cv path_exists input output M codec) 2
      (''Input file not found: '' @ input)" if "\<not> path_exists input"
    using that by (simp add: main_video_def reported_once_def)
  show "reported_once (main_video cv path_exists input output M codec) 1
      (''Error: '' @ exn_message e)"
    if "path_exists input \<and> resample_frames cv input output M codec = Inl e" for e
  proof -
    from that have pe: "path_exists input"
      and r: "resample_frames cv input output M codec = Inl e"
      by simp_all
    show ?thesis
      using pe r by (simp add: main_video_def reported_once_def)
  qed
  show "resample_frames cv input output M codec
      = Inl (RuntimeError (''Cannot open input video: '' @ input))"
    if "\<not> isOpened (VideoCapture cv input)"
    using that by (rule resample_frames_not_opened)
  show "\<exists>e. resample_frames cv input output M codec = Inl e"
    if "decoded (VideoCapture cv input) = []"
    using that by (rule resample_frames_no_decoded)
  show "resample_frames cv input output M codec
      = Inl (RuntimeError ''Input video contains no frames.'')"
    if "isOpened (VideoCapture cv input)
        \<and> py_int (CAP_PROP_FRAME_COUNT (VideoCapture cv input)) \<le> 0
        \<and> decoded (VideoCapture cv input) = []"
    using that by (intro resample_frames_no_frames) simp_all
  show "\<exists>e. resample_frames cv input output M codec = Inl e" if "M \<le> 0"
    using that by (rule resample_frames_nonpositive)
  show "resample_frames cv input output M codec
      = Inl (ValueError ''target_frames must be > 0'')"
    if "frames_loaded (VideoCapture cv input) \<and> M \<le> 0"
    using that by (intro resample_frames_target_check) simp_all
  show "resample_frames cv input output M codec
      = Inl (RuntimeError (''Cannot open output for writing: '' @ output))"
    if "frames_loaded (VideoCapture cv input) \<and> 0 < M \<and> length codec = 4
        \<and> (\<forall>rate sz. \<not> writer_isOpened cv output codec rate sz)"
    using that by (intro resample_frames_writer_check) blast+
qed

theorem error_reports_witness:
  "reported_once
     (main_poses (\<lambda>path. False) (\<lambda>path. cameras) ''cameras.json'' ''out.json'' 81)
     2 ''Input not found: cameras.json''
   \<and> reported_once
     (main_poses (\<lambda>path. True) (\<lambda>path. no_poses_field) ''cameras.json'' ''out.json'' 81)
     3 ''Input JSON does not contain 'poses' key''
   \<and> reported_once
     (main_poses (\<lambda>path. True) (\<lambda>path. cameras) ''cameras.json'' ''out.json'' 0)
     4 ''Target frames must be > 0''
   \<and> main_poses (\<lambda>path. True) (\<lambda>path. no_poses) ''cameras.json'' ''out.json'' 81
       = Uncaught (ValueError ''No poses to resample'')
   \<and> exit_status
        (main_poses (\<lambda>path. True) (\<lambda>path. no_poses) ''cameras.json'' ''out.json'' 81) = 1
   \<and> stderr_lines
        (main_poses (\<lambda>path. True) (\<lambda>path. no_poses) ''cameras.json'' ''out.json'' 81)
       = [''Traceback (most recent call last):'', ''ValueError: No poses to resample'']
   \<and> reported_once
     (main_video ten_frames (\<lambda>path. False) ''in.mp4'' ''out.mp4'' 5 ''mp4v'')
     2 ''Input file not found: in.mp4''
   \<and> reported_once
     (main_video no_decoder (\<lambda>path. True) ''in.mp4'' ''out.mp4'' 5 ''mp4v'')
     1 ''Error: Cannot open input video: in.mp4''
   \<and> reported_once
     (main_video no_frames (\<lambda>path. True) ''in.mp4'' ''out.mp4'' 5 ''mp4v'')
     1 ''Error: Input video contains no frames.''
   \<and> reported_once
     (main_video empty_capture (\<lambda>path. True) ''in.mp4'' ''out.mp4'' 0 ''mp4v'')
     1 ''Error: list index out of range''
   \<and> reported_once
     (main_video ten_frames (\<lambda>path. True) ''in.mp4'' ''out.mp4'' 0 ''mp4v'')
     1 ''Error: target_frames must be > 0''
   \<and> reported_once
     (main_video no_encoder (\<lambda>path. True) ''in.mp4'' ''out.mp4'' 5 ''mp4v'')
     1 ''Error: Cannot open output for writing: out.mp4''
   \<and> (\<exists>e. resample_frames empty_capture ''in.mp4'' ''out.mp4'' 5 ''mp4v'' = Inl e)
   \<and> (\<exists>e. resample_frames short_capture ''in.mp4'' ''out.mp4'' (- 3) ''mp4v'' = Inl e)"
proof -
  have p: "cameras ''poses'' \<noteq> None" by (simp add: cameras_def)
  have np: "no_poses_field ''poses'' = None" by (simp add: no_poses_field_def)
  have ep: "no_poses ''poses'' = Some (JPoses [])" by (simp add: no_poses_def)
  have a: "\<not> isOpened (VideoCapture no_decoder ''in.mp4'')"
    by (simp add: no_decoder_def ten_frames_def)
  have l: "frames_loaded (VideoCapture ten_frames ''in.mp4'')"
    by (simp add: frames_loaded_def ten_frames_def)
  have le: "frames_loaded (VideoCapture no_encoder ''in.mp4'')"
    "\<forall>rate sz. \<not> writer_isOpened no_encoder ''out.mp4'' ''mp4v'' rate sz"
    by (simp_all add: frames_loaded_def no_encoder_def ten_frames_def)
  have nf: "isOpened (VideoCapture no_frames ''in.mp4'')"
    "py_int (CAP_PROP_FRAME_COUNT (VideoCapture no_frames ''in.mp4'')) \<le> 0"
    "decoded (VideoCapture no_frames ''in.mp4'') = []"
    by (simp_all add: no_frames_def ten_frames_def)
  have v: "resample_frames empty_capture ''in.mp4'' ''out.mp4'' 0 ''mp4v''
      = Inl (IndexError ''list index out of range'')"
    by (simp add: resample_frames_def empty_capture_def ten_frames_def getitem_def Let_def)
  note e1 = error_reports[of "\<lambda>path. False" "''cameras.json''" "\<lambda>path. cameras"
      "''out.json''" 81 ten_frames "''mp4v''"]
  note e2 = error_reports[of "\<lambda>path. True" "''cameras.json''" "\<lambda>path. no_poses_field"
      "''out.json''" 81 ten_frames "''mp4v''"]
  note e3 = error_reports[of "\<lambda>path. True" "''cameras.json''" "\<lambda>path. cameras"
      "''out.json''" 0 ten_frames "''mp4v''"]
  note e4 = error_reports[of "\<lambda>path. True" "''cameras.json''" "\<lambda>path. no_poses"
      "''out.json''" 81 ten_frames "''mp4v''"]
  note e5 = error_reports[of "\<lambda>path. False" "''in.mp4''" "\<lambda>path. cameras"
      "''out.mp4''" 5 ten_frames "''mp4v''"]
  note e6 = error_reports[of "\<lambda>path. True" "''in.mp4''" "\<lambda>path. cameras"
      "''out.mp4''" 5 no_decoder "''mp4v''"]
  note e7 = error_reports[of "\<lambda>path. True" "''in.mp4''" "\<lambda>path. cameras"
      "''out.mp4''" 5 no_frames "''mp4v''"]
  note e8 = error_reports[of "\<lambda>path. True" "''in.mp4''" "\<lambda>path. cameras"
      "''out.mp4''" 0 empty_capture "''mp4v''"]
  note e9 = error_reports[of "\<lambda>path. True" "''in.mp4''" "\<lambda>path. cameras"
      "''out.mp4''" 0 ten_frames "''mp4v''"]
  note e10 = error_reports[of "\<lambda>path. True" "''in.mp4''" "\<lambda>path. cameras"
      "''out.mp4''" 5 no_encoder "''mp4v''"]
  have c1: "reported_once
     (main_poses (\<lambda>path. False) (\<lambda>path. cameras) ''cameras.json'' ''out.json'' 81)
     2 ''Input not found: cameras.json''"
    using e1 by simp
  have c2: "reported_once
     (main_poses (\<lambda>path. True) (\<lambda>path. no_poses_field) ''cameras.json'' ''out.json'' 81)
     3 ''Input JSON does not contain 'poses' key''"
    using e2 np by simp
  have c3: "reported_once
     (main_poses (\<lambda>path. True) (\<lambda>path. cameras) ''cameras.json'' ''out.json'' 0)
     4 ''Target frames must be > 0''"
    using e3 p by simp
  have c4: "main_poses (\<lambda>path. True) (\<lambda>path. no_poses) ''cameras.json'' ''out.json'' 81
       = Uncaught (ValueError ''No poses to resample'')
   \<and> exit_status
        (main_poses (\<lambda>path. True) (\<lambda>path. no_poses) ''cameras.json'' ''out.json'' 81) = 1
   \<and> stderr_lines
        (main_poses (\<lambda>path. True) (\<lambda>path. no_poses) ''cameras.json'' ''out.json'' 81)
       = [''Traceback (most recent call last):'', ''ValueError: No poses to resample'']"
    using e4 ep by simp
  have c5: "reported_once
     (main_video ten_frames (\<lambda>path. False) ''in.mp4'' ''out.mp4'' 5 ''mp4v'')
     2 ''Input file not found: in.mp4''"
    using e5 by simp
  have c6: "reported_once
     (main_video no_decoder (\<lambda>path. True) ''in.mp4'' ''out.mp4'' 5 ''mp4v'')
     1 ''Error: Cannot open input video: in.mp4''"
    using e6 a by (simp add: resample_frames_not_opened)
  have c7: "reported_once
     (main_video no_frames (\<lambda>path. True) ''in.mp4'' ''out.mp4'' 5 ''mp4v'')
     1 ''Error: Input video contains no frames.''"
    using e7 nf by (simp add: resample_frames_no_frames)
  have c8: "reported_once
     (main_video empty_capture (\<lambda>path. True) ''in.mp4'' ''out.mp4'' 0 ''mp4v'')
     1 ''Error: list index out of range''"
    using e8 v by simp
  have c9: "reported_once
     (main_video ten_frames (\<lambda>path. True) ''in.mp4'' ''out.mp4'' 0 ''mp4v'')
     1 ''Error: target_frames must be > 0''"
    using e9 l by (simp add: resample_frames_target_check)
  have c10: "reported_once
     (main_video no_encoder (\<lambda>path. True) ''in.mp4'' ''out.mp4'' 5 ''mp4v'')
     1 ''Error: Cannot open output for writing: out.mp4''"
    using e10 le by (simp add: resample_frames_writer_check)
  have ec: "decoded (VideoCapture empty_capture ''in.mp4'') = []"
    by (simp add: empty_capture_def ten_frames_def)
  have c11: "\<exists>e. resample_frames empty_capture ''in.mp4'' ''out.mp4'' 5 ''mp4v'' = Inl e"
    using error_reports[of "\<lambda>path. True" "''in.mp4''" "\<lambda>path. cameras"
      "''out.mp4''" 5 empty_capture "''mp4v''"] ec by blast
  have c12: "\<exists>e. resample_frames short_capture ''in.mp4'' ''out.mp4'' (- 3) ''mp4v'' = Inl e"
    using error_reports[of "\<lambda>path. True" "''in.mp4''" "\<lambda>path. cameras"
      "''out.mp4''" "- 3" short_capture "''mp4v''"] by simp
  show ?thesis
    using c1 c2 c3 c4 c5 c6 c7 c8 c9 c10 c11 c12 by blast
qed

text \<open>
  C8 as stated asks for a distinct exit status per category. In the video tool a capture
  that does not open and a writer that does not open both end with status 1.
\<close>

theorem exit_status_not_distinct:
  "reported_once
     (main_video no_decoder (\<lambda>path. True) ''in.mp4'' ''out.mp4'' 5 ''mp4v'')
     1 ''Error: Cannot open input video: in.mp4''
   \<and> reported_once
     (main_video no_encoder (\<lambda>path. True) ''in.mp4'' ''out.mp4'' 5 ''mp4v'')
     1 ''Error: Cannot open output for writing: out.mp4''
   \<and> exit_status (main_video no_decoder (\<lambda>path. True) ''in.mp4'' ''out.mp4'' 5 ''mp4v'')
      = exit_status (main_video no_encoder (\<lambda>path. True) ''in.mp4'' ''out.mp4'' 5 ''mp4v'')"
proof -
  have a: "main_video no_decoder (\<lambda>path. True) ''in.mp4'' ''out.mp4'' 5 ''mp4v''
      = SysExit 1 ''Error: Cannot open input video: in.mp4''"
    by (simp add: main_video_def resample_frames_not_opened no_decoder_def ten_frames_def)
  have "resample_frames no_encoder ''in.mp4'' ''out.mp4'' 5 ''mp4v''
      = Inl (RuntimeError (''Cannot open output for writing: '' @ ''out.mp4''))"
    by (rule resample_frames_writer_closed) (simp_all add: no_encoder_def ten_frames_def)
  then have b: "main_video no_encoder (\<lambda>path. True) ''in.mp4'' ''out.mp4'' 5 ''mp4v''
      = SysExit 1 ''Error: Cannot open output for writing: out.mp4''"
    by (simp add: main_video_def)
  show ?thesis by (simp add: a b reported_once_def)
qed

end
